theory Spec2Isabelle
  imports Complex_Main
begin

section \<open>Lexicon resolver (dm.ts lines 24-65, dm4.ts lines 36-87)\<close>

text \<open>
  A JavaScript string is modelled as a \<open>string\<close> whose characters are the code points
  0..255 (Latin-1). On these, \<open>String.prototype.toLowerCase\<close> maps A..Z and the
  letters U+00C0..U+00DE (except the multiplication sign U+00D7) to the code point 32
  above, which sets bit 5, and leaves every other code point alone.
\<close>

definition isUpper :: "char \<Rightarrow> bool" where
  "isUpper c =
     (let n = (of_char c :: nat)
      in (65 \<le> n \<and> n \<le> 90) \<or> (192 \<le> n \<and> n \<le> 222 \<and> n \<noteq> 215))"

fun toLowerChar :: "char \<Rightarrow> char" where
  "toLowerChar (Char b0 b1 b2 b3 b4 b5 b6 b7) =
     (if isUpper (Char b0 b1 b2 b3 b4 b5 b6 b7) then Char b0 b1 b2 b3 b4 True b6 b7
      else Char b0 b1 b2 b3 b4 b5 b6 b7)"

definition toLowerCase :: "string \<Rightarrow> string" where
  "toLowerCase s = map toLowerChar s"

record GrammarEntry =
  person :: "string option"
  day :: "string option"
  time :: "string option"
  yesno :: "string option"

definition noEntry :: GrammarEntry where
  "noEntry = \<lparr>person = None, day = None, time = None, yesno = None\<rparr>"

text \<open>The object literal \<open>grammar\<close>: its own properties, in source order.\<close>

definition grammarTable :: "(string \<times> GrammarEntry) list" where
  "grammarTable =
     [(''vlad'', noEntry\<lparr>person := Some ''Vladislav Maraev''\<rparr>),
      (''aya'', noEntry\<lparr>person := Some ''Nayat Astaiza Soriano''\<rparr>),
      (''victoria'', noEntry\<lparr>person := Some ''Victoria Daniilidou''\<rparr>),
      (''monday'', noEntry\<lparr>day := Some ''Monday''\<rparr>),
      (''tuesday'', noEntry\<lparr>day := Some ''Tuesday''\<rparr>),
      (''yes'', noEntry\<lparr>yesno := Some ''Yes''\<rparr>),
      (''no'', noEntry\<lparr>yesno := Some ''No''\<rparr>),
      (''10'', noEntry\<lparr>time := Some ''10:00''\<rparr>),
      (''11'', noEntry\<lparr>time := Some ''11:00''\<rparr>)]"

definition grammar :: "string \<rightharpoonup> GrammarEntry" where
  "grammar = map_of grammarTable"

text \<open>
  \<open>grammar\<close> is created by an object literal, so its prototype is \<open>Object.prototype\<close>.
  The operator \<open>in\<close> of \<open>isInGrammar\<close> and the property read \<open>grammar[key]\<close> of
  \<open>getPerson\<close> both follow the prototype chain; these are the property names found
  there (ECMAScript, with the legacy accessors of its Annex B).
\<close>

definition objectPrototype :: "string list" where
  "objectPrototype =
     [''constructor'', ''hasOwnProperty'', ''isPrototypeOf'', ''propertyIsEnumerable'',
      ''toLocaleString'', ''toString'', ''valueOf'', ''__proto__'',
      ''__defineGetter__'', ''__defineSetter__'', ''__lookupGetter__'',
      ''__lookupSetter__'']"

definition validDay :: "string list" where
  "validDay = [''monday'', ''tuesday'', ''wednesday'', ''thursday'', ''friday'',
               ''saturday'', ''sunday'']"

definition yesPhrases :: "string list" where
  "yesPhrases = [''yes'', ''sure'', ''of course'', ''absolutely'', ''indeed'', ''aye'']"

definition noPhrases :: "string list" where
  "noPhrases = [''no'', ''nope'', ''nah'', ''negative'', ''nay'', ''not really'']"

text \<open>\<open>utterance.toLowerCase() in grammar\<close>: an own or an inherited property.\<close>

definition isInGrammar :: "string \<Rightarrow> bool" where
  "isInGrammar utterance =
     (toLowerCase utterance \<in> fst ` set grammarTable
      \<or> toLowerCase utterance \<in> set objectPrototype)"

text \<open>
  \<open>(grammar[utterance.toLowerCase()] || {}).person\<close>, with \<open>None\<close> for
  \<open>undefined\<close>. A property inherited from \<open>Object.prototype\<close> is a function or the
  prototype object itself: truthy, and without a property \<open>person\<close>.
\<close>

definition getPerson :: "string \<Rightarrow> string option" where
  "getPerson utterance =
     (case grammar (toLowerCase utterance) of
        Some entry \<Rightarrow> person entry
      | None \<Rightarrow> None)"

definition validateDay :: "string \<Rightarrow> bool" where
  "validateDay utterance = (toLowerCase utterance \<in> set validDay)"

definition isYes :: "string \<Rightarrow> bool" where
  "isYes utterance = (toLowerCase utterance \<in> set yesPhrases)"

definition isNo :: "string \<Rightarrow> bool" where
  "isNo utterance = (toLowerCase utterance \<in> set noPhrases)"

text \<open>\<open>personInfo\<close> of dm4.ts, read without a prototype-aware guard as well.\<close>

definition personInfo :: "(string \<times> string) list" where
  "personInfo =
     [(''michael jackson'', ''Michael Jackson is a singer, songwriter, and dancer. He is often referred to as the 'King of Pop'.''),
      (''madonna'', ''Madonna is a singer, songwriter, and actress. She is often referred to as the 'Queen of Pop'.''),
      (''mother teresa'', ''Mother Teresa was a Roman Catholic nun and missionary. She devoted her life to helping the poor and sick in India and was awarded the Nobel Peace Prize in 1979.''),
      (''vic'', '''')]"

section \<open>Events, commands and the shape of a state machine\<close>

text \<open>
  A recognition hypothesis (speechstate's \<open>Hypothesis\<close>). The confidence is a JavaScript
  number that the dialogue manager never reads.
\<close>

record Hypothesis =
  utterance :: string
  confidence :: real

text \<open>The part of an NLU result that dm4.ts reads: \<open>topIntent\<close> and \<open>entities\<close>.\<close>

record Entity =
  category :: string
  text_of :: string

record NluValue =
  topIntent :: string
  entities :: "Entity list option"

text \<open>
  \<open>DMEvents\<close>: the events of speechstate that the machines handle, and \<open>CLICK\<close> and
  \<open>DONE\<close>. \<open>RECOGNISED\<close> carries \<open>value\<close> and the optional \<open>nluValue\<close>.
\<close>

datatype event =
  ASRTTS_READY | CLICK | DONE | SPEAK_COMPLETE | LISTEN_COMPLETE
  | RECOGNISED "Hypothesis list" "NluValue option" | ASR_NOINPUT

text \<open>
  What the machine sends to \<open>spstRef\<close>: \<open>PREPARE\<close>, \<open>SPEAK\<close> with its utterance,
  \<open>LISTEN\<close>, and \<open>LISTEN\<close> with \<open>nlu: true\<close>.
\<close>

datatype command = PREPARE | SPEAK string | LISTEN | LISTEN_NLU

text \<open>A read through null or undefined throws a TypeError.\<close>

datatype error = TypeError

text \<open>
  The state nodes. A compound state \<open>AskName\<close>, \<open>AskDay\<close>, ... is a \<open>slot\<close>, and its
  child states are the \<open>sub\<close> values: \<open>Prompt\<close> stands for \<open>PromptForName\<close>,
  \<open>PromptForDay\<close>, \<open>PromptForYesNo\<close>, \<open>PromptForTime\<close> and \<open>PromptForWhat\<close>, and
  \<open>CheckFor\<close> for \<open>CheckForName\<close>, \<open>CheckForDay\<close> and \<open>CheckForTime\<close>; the other
  names are the source's. dm.ts has no \<open>AskWhat\<close>, \<open>CheckFor\<close>, \<open>WhoIs\<close> and
  \<open>DoneMeeting\<close>.
\<close>

datatype slot = AskWhat | AskName | AskDay | AskFullDay | AskTime | AskConfirm

datatype sub =
  CheckFor | Prompt | NoInput | InvalidInput | InvalidDay | InvalidYesNo | InvalidTime
  | ValidInput | WholeDay | ValidateInput | Listen

datatype state =
  Prepare | WaitToStart | Greeting | In slot sub | WhoIs | Done | DoneMeeting

text \<open>
  The target of a transition: a child state, or a compound state, which is entered at
  its \<open>initial\<close> child.
\<close>

datatype node = Atomic state | Compound slot

text \<open>
  One entry of a transition array: its guard, its target (none for a transition that
  only runs actions) and its \<open>assign\<close> action. A guard or an action that throws
  returns \<open>Inl\<close>.
\<close>

datatype 'c transition =
  Transition (guard: "'c \<Rightarrow> error + bool") (target: "node option")
    (actions: "'c \<Rightarrow> error + 'c")

definition goto :: "state \<Rightarrow> 'c transition" where
  "goto s = Transition (\<lambda>c. Inr True) (Some (Atomic s)) (\<lambda>c. Inr c)"

definition gotoIf :: "('c \<Rightarrow> error + bool) \<Rightarrow> state \<Rightarrow> 'c transition" where
  "gotoIf g s = Transition g (Some (Atomic s)) (\<lambda>c. Inr c)"

definition enter :: "slot \<Rightarrow> 'c transition" where
  "enter sl = Transition (\<lambda>c. Inr True) (Some (Compound sl)) (\<lambda>c. Inr c)"

definition enterIf :: "('c \<Rightarrow> error + bool) \<Rightarrow> slot \<Rightarrow> 'c transition" where
  "enterIf g sl = Transition g (Some (Compound sl)) (\<lambda>c. Inr c)"

definition assign :: "('c \<Rightarrow> error + 'c) \<Rightarrow> 'c transition" where
  "assign f = Transition (\<lambda>c. Inr True) None f"

text \<open>The first transition of the array whose guard holds, evaluating guards in order.\<close>

fun select :: "'c transition list \<Rightarrow> 'c \<Rightarrow> error + 'c transition option" where
  "select [] c = Inr None"
| "select (t # ts) c =
     (case guard t c of
        Inl e \<Rightarrow> Inl e
      | Inr True \<Rightarrow> Inr (Some t)
      | Inr False \<Rightarrow> select ts c)"

text \<open>
  Taking a transition: its actions run, and with a target the state entered runs its
  entry actions. The result names the state entered, if any.
\<close>

definition fire ::
  "(state \<Rightarrow> 'c \<Rightarrow> error + 'c \<times> command list) \<Rightarrow> (slot \<Rightarrow> state) \<Rightarrow> 'c transition \<Rightarrow> 'c
     \<Rightarrow> error + state option \<times> 'c \<times> command list" where
  "fire entry initial t c =
     (case actions t c of
        Inl e \<Rightarrow> Inl e
      | Inr c1 \<Rightarrow>
          (case target t of
             None \<Rightarrow> Inr (None, c1, [])
           | Some n \<Rightarrow>
               (let s' = (case n of Atomic s \<Rightarrow> s | Compound sl \<Rightarrow> initial sl)
                in case entry s' c1 of
                     Inl e \<Rightarrow> Inl e
                   | Inr (c2, out) \<Rightarrow> Inr (Some s', c2, out))))"

text \<open>A sequence of events under a step function, collecting the commands sent.\<close>

fun run ::
  "(state \<Rightarrow> event \<Rightarrow> 'c \<Rightarrow> error + state \<times> 'c \<times> command list)
     \<Rightarrow> state \<Rightarrow> 'c \<Rightarrow> event list \<Rightarrow> error + state \<times> 'c \<times> command list" where
  "run stp s c [] = Inr (s, c, [])"
| "run stp s c (ev # evs) =
     (case stp s ev c of
        Inl e \<Rightarrow> Inl e
      | Inr (s1, c1, out1) \<Rightarrow>
          (case run stp s1 c1 evs of
             Inl e \<Rightarrow> Inl e
           | Inr (s2, c2, out2) \<Rightarrow> Inr (s2, c2, out1 @ out2)))"

section \<open>The conversation context (types.ts)\<close>

text \<open>
  \<open>lastResult\<close> holds null, the hypotheses of \<open>event.value\<close>, or (after dm4.ts's
  \<open>AskWhat.Listen\<close>) the object \<open>event.nluValue\<close>.
\<close>

datatype recognition = Null | Hyps "Hypothesis list" | Nlu NluValue

text \<open>
  \<open>DMContext\<close> without \<open>spstRef\<close>: what the machine sends to it is the command list
  that a step returns. A slot holds a string or null (\<open>None\<close>): dm.ts starts every slot
  as null and has no \<open>nluIntent\<close> and \<open>nluEntities\<close>, dm4.ts starts the slots and the
  intent as the empty string.
\<close>

record DMContext =
  lastResult :: recognition
  nameResult :: "string option"
  dayResult :: "string option"
  timeResult :: "string option"
  nluIntent :: "string option"
  nluEntities :: "Entity list option"

text \<open>JavaScript's truthiness of a string or null.\<close>

definition truthy :: "string option \<Rightarrow> bool" where
  "truthy v = (case v of None \<Rightarrow> False | Some s \<Rightarrow> s \<noteq> [])"

text \<open>\<open>a || b\<close>: \<open>b\<close> when \<open>a\<close> is falsy.\<close>

definition orElse :: "string option \<Rightarrow> string \<Rightarrow> string" where
  "orElse a b = (case a of None \<Rightarrow> b | Some s \<Rightarrow> if s = [] then b else s)"

text \<open>A template literal prints null as the four letters \<open>null\<close>.\<close>

definition str :: "string option \<Rightarrow> string" where
  "str v = (case v of None \<Rightarrow> ''null'' | Some s \<Rightarrow> s)"

text \<open>
  \<open>context.lastResult![0].utterance\<close>: throws on null, on an empty array, and on an
  NLU result, which has no property \<open>0\<close>.
\<close>

definition lastUtterance :: "DMContext \<Rightarrow> error + string" where
  "lastUtterance c =
     (case lastResult c of
        Null \<Rightarrow> Inl TypeError
      | Hyps hs \<Rightarrow> (case hs of [] \<Rightarrow> Inl TypeError | h # rest \<Rightarrow> Inr (utterance h))
      | Nlu v \<Rightarrow> Inl TypeError)"

text \<open>A guard that tests the top utterance.\<close>

definition whenHeard :: "(string \<Rightarrow> bool) \<Rightarrow> DMContext \<Rightarrow> error + bool" where
  "whenHeard p c = (case lastUtterance c of Inl e \<Rightarrow> Inl e | Inr u \<Rightarrow> Inr (p u))"

definition speak :: "string \<Rightarrow> 'c \<Rightarrow> error + 'c \<times> command list" where
  "speak u c = Inr (c, [SPEAK u])"

text \<open>\<open>spst.speak\<close> with an utterance built from the top utterance.\<close>

definition speakHeard ::
  "(string \<Rightarrow> string) \<Rightarrow> DMContext \<Rightarrow> error + DMContext \<times> command list" where
  "speakHeard f c =
     (case lastUtterance c of Inl e \<Rightarrow> Inl e | Inr u \<Rightarrow> Inr (c, [SPEAK (f u)]))"

text \<open>The words that open the apologies of the invalid-input states.\<close>

definition apology :: string where
  "apology = ''sorry, but ''"

definition didntHear :: string where
  "didntHear = ''Sorry, I didn't hear anything!''"

text \<open>
  The \<open>Listen\<close> child of a slot (\<open>spst.listen\<close>), and the children that only wait for
  \<open>SPEAK_COMPLETE\<close>, are the same text in dm.ts and dm4.ts.
\<close>

definition Listen_on :: "event \<Rightarrow> DMContext transition list" where
  "Listen_on ev =
     (case ev of
        RECOGNISED v n \<Rightarrow> [assign (\<lambda>c. Inr (c\<lparr>lastResult := Hyps v\<rparr>))]
      | ASR_NOINPUT \<Rightarrow> [assign (\<lambda>c. Inr (c\<lparr>lastResult := Null\<rparr>))]
      | _ \<Rightarrow> [])"

definition toPrompt :: "slot \<Rightarrow> event \<Rightarrow> 'c transition list" where
  "toPrompt sl ev = (case ev of SPEAK_COMPLETE \<Rightarrow> [goto (In sl Prompt)] | _ \<Rightarrow> [])"

definition toListen :: "slot \<Rightarrow> event \<Rightarrow> 'c transition list" where
  "toListen sl ev = (case ev of SPEAK_COMPLETE \<Rightarrow> [goto (In sl Listen)] | _ \<Rightarrow> [])"

section \<open>The grammar variant: the machine of dm.ts\<close>

subsection \<open>AskName (dm.ts lines 124-219)\<close>

definition AskName_entry :: "sub \<Rightarrow> DMContext \<Rightarrow> error + DMContext \<times> command list" where
  "AskName_entry b c =
     (case b of
        Prompt \<Rightarrow> speak ''Who are you meeting with?'' c
      | NoInput \<Rightarrow> speak didntHear c
      | InvalidInput \<Rightarrow>
          speakHeard (\<lambda>u. apology @ ''there does not seem to be a person with the name  ''
                            @ u @ '' in our system.'') c
      | ValidInput \<Rightarrow>
          (case lastUtterance c of
             Inl e \<Rightarrow> Inl e
           | Inr u \<Rightarrow>
               (let c' = c\<lparr>nameResult := Some (orElse (getPerson u) ''Unknown'')\<rparr>
                in Inr (c', [SPEAK (if nameResult c' = Some ''Unknown''
                                    then ''Sorry, I did not recognise that name.''
                                    else ''ok, you are meeting with '' @ str (nameResult c'))])))
      | Listen \<Rightarrow> Inr (c, [LISTEN])
      | _ \<Rightarrow> Inr (c, []))"

definition AskName_on :: "sub \<Rightarrow> event \<Rightarrow> DMContext transition list" where
  "AskName_on b ev =
     (case b of
        Prompt \<Rightarrow> toListen AskName ev
      | NoInput \<Rightarrow> toPrompt AskName ev
      | InvalidInput \<Rightarrow> toPrompt AskName ev
      | ValidInput \<Rightarrow>
          (case ev of
             SPEAK_COMPLETE \<Rightarrow>
               [enterIf (\<lambda>c. Inr (nameResult c = Some ''Unknown'')) AskName,
                enterIf (\<lambda>c. Inr (nameResult c \<noteq> Some ''Unknown'')) AskDay]
           | _ \<Rightarrow> [])
      | Listen \<Rightarrow> Listen_on ev
      | _ \<Rightarrow> [])"

definition AskName_always :: "sub \<Rightarrow> DMContext transition list" where
  "AskName_always b =
     (case b of
        ValidateInput \<Rightarrow>
          [gotoIf (whenHeard (\<lambda>u. isInGrammar u)) (In AskName ValidInput),
           gotoIf (whenHeard (\<lambda>u. \<not> isInGrammar u)) (In AskName InvalidInput)]
      | _ \<Rightarrow> [])"

subsection \<open>AskDay (dm.ts lines 220-316)\<close>

definition AskDay_entry :: "sub \<Rightarrow> DMContext \<Rightarrow> error + DMContext \<times> command list" where
  "AskDay_entry b c =
     (case b of
        Prompt \<Rightarrow> speak ''On which day is your meeting?'' c
      | NoInput \<Rightarrow> speak didntHear c
      | InvalidDay \<Rightarrow> speakHeard (\<lambda>u. apology @ u @ '' is not a valid weekday name.'') c
      | InvalidInput \<Rightarrow>
          speakHeard (\<lambda>u. apology @ u @ '' does not seem to be a bookable day in our system.'') c
      | ValidInput \<Rightarrow>
          (case lastUtterance c of
             Inl e \<Rightarrow> Inl e
           | Inr u \<Rightarrow>
               (let c' = c\<lparr>dayResult := Some (orElse (Some u) ''Unknown'')\<rparr>
                in Inr (c', [SPEAK (''ok, your meeting is on '' @ str (dayResult c'))])))
      | Listen \<Rightarrow> Inr (c, [LISTEN])
      | _ \<Rightarrow> Inr (c, []))"

definition AskDay_on :: "sub \<Rightarrow> event \<Rightarrow> DMContext transition list" where
  "AskDay_on b ev =
     (case b of
        Prompt \<Rightarrow> toListen AskDay ev
      | NoInput \<Rightarrow> toPrompt AskDay ev
      | InvalidDay \<Rightarrow> toPrompt AskDay ev
      | InvalidInput \<Rightarrow> toPrompt AskDay ev
      | ValidInput \<Rightarrow> (case ev of SPEAK_COMPLETE \<Rightarrow> [enter AskFullDay] | _ \<Rightarrow> [])
      | Listen \<Rightarrow> Listen_on ev
      | _ \<Rightarrow> [])"

definition AskDay_always :: "sub \<Rightarrow> DMContext transition list" where
  "AskDay_always b =
     (case b of
        ValidateInput \<Rightarrow>
          [gotoIf (whenHeard (\<lambda>u. \<not> validateDay u)) (In AskDay InvalidDay),
           gotoIf (whenHeard (\<lambda>u. validateDay u \<and> isInGrammar u)) (In AskDay ValidInput),
           gotoIf (whenHeard (\<lambda>u. validateDay u \<and> \<not> isInGrammar u)) (In AskDay InvalidInput)]
      | _ \<Rightarrow> [])"

subsection \<open>AskFullDay (dm.ts lines 318-423)\<close>

text \<open>\<open>WholeDay\<close>'s \<open>assign\<close> writes \<open>"whole day"\<close> to \<open>timeResult\<close> and speaks it.\<close>

definition wholeDay :: "DMContext \<Rightarrow> error + DMContext \<times> command list" where
  "wholeDay c =
     (let c' = c\<lparr>timeResult := Some ''whole day''\<rparr>
      in Inr (c', [SPEAK (''ok, '' @ str (timeResult c'))]))"

definition AskFullDay_entry :: "sub \<Rightarrow> DMContext \<Rightarrow> error + DMContext \<times> command list" where
  "AskFullDay_entry b c =
     (case b of
        Prompt \<Rightarrow> speak ''Will it take the whole day?'' c
      | NoInput \<Rightarrow> speak didntHear c
      | InvalidYesNo \<Rightarrow> speakHeard (\<lambda>u. apology @ u @ '' is not a yes or no response.'') c
      | InvalidInput \<Rightarrow>
          speakHeard (\<lambda>u. apology @ ''I heard '' @ u @ ''. Please answer with yes or no.'') c
      | WholeDay \<Rightarrow> wholeDay c
      | Listen \<Rightarrow> Inr (c, [LISTEN])
      | _ \<Rightarrow> Inr (c, []))"

definition AskFullDay_on :: "sub \<Rightarrow> event \<Rightarrow> DMContext transition list" where
  "AskFullDay_on b ev =
     (case b of
        Prompt \<Rightarrow> toListen AskFullDay ev
      | NoInput \<Rightarrow> toPrompt AskFullDay ev
      | InvalidYesNo \<Rightarrow> toPrompt AskFullDay ev
      | InvalidInput \<Rightarrow> toPrompt AskFullDay ev
      | WholeDay \<Rightarrow> (case ev of SPEAK_COMPLETE \<Rightarrow> [enter AskConfirm] | _ \<Rightarrow> [])
      | Listen \<Rightarrow> Listen_on ev
      | _ \<Rightarrow> [])"

definition AskFullDay_always :: "sub \<Rightarrow> DMContext transition list" where
  "AskFullDay_always b =
     (case b of
        ValidateInput \<Rightarrow>
          [enterIf (whenHeard (\<lambda>u. isNo (toLowerCase u))) AskTime,
           gotoIf (whenHeard (\<lambda>u. isYes (toLowerCase u))) (In AskFullDay WholeDay),
           gotoIf (whenHeard (\<lambda>u. \<not> isNo (toLowerCase u) \<or> \<not> isYes (toLowerCase u)))
             (In AskFullDay InvalidInput)]
      | _ \<Rightarrow> [])"

subsection \<open>AskTime (dm.ts lines 424-515)\<close>

definition AskTime_entry :: "sub \<Rightarrow> DMContext \<Rightarrow> error + DMContext \<times> command list" where
  "AskTime_entry b c =
     (case b of
        Prompt \<Rightarrow> speak ''What time is your meeting?'' c
      | NoInput \<Rightarrow> speak didntHear c
      | InvalidTime \<Rightarrow> speakHeard (\<lambda>u. apology @ u @ '' is not a valid time.'') c
      | InvalidInput \<Rightarrow>
          speakHeard (\<lambda>u. apology @ u @ '' does not seem to be a bookable time in our system.'') c
      | ValidInput \<Rightarrow>
          (case lastUtterance c of
             Inl e \<Rightarrow> Inl e
           | Inr u \<Rightarrow>
               (let c' = c\<lparr>timeResult := Some (orElse (Some u) ''Unknown'')\<rparr>
                in Inr (c', [SPEAK (''ok, '' @ str (timeResult c'))])))
      | Listen \<Rightarrow> Inr (c, [LISTEN])
      | _ \<Rightarrow> Inr (c, []))"

definition AskTime_on :: "sub \<Rightarrow> event \<Rightarrow> DMContext transition list" where
  "AskTime_on b ev =
     (case b of
        Prompt \<Rightarrow> toListen AskTime ev
      | NoInput \<Rightarrow> toPrompt AskTime ev
      | InvalidTime \<Rightarrow> toPrompt AskTime ev
      | InvalidInput \<Rightarrow> toPrompt AskTime ev
      | ValidInput \<Rightarrow> (case ev of SPEAK_COMPLETE \<Rightarrow> [enter AskConfirm] | _ \<Rightarrow> [])
      | Listen \<Rightarrow> Listen_on ev
      | _ \<Rightarrow> [])"

definition AskTime_always :: "sub \<Rightarrow> DMContext transition list" where
  "AskTime_always b =
     (case b of
        ValidateInput \<Rightarrow>
          [gotoIf (whenHeard (\<lambda>u. isInGrammar u)) (In AskTime ValidInput),
           gotoIf (whenHeard (\<lambda>u. \<not> isInGrammar u)) (In AskTime InvalidInput)]
      | _ \<Rightarrow> [])"

subsection \<open>AskConfirm (dm.ts lines 517-627, dm4.ts lines 738-848)\<close>

text \<open>
  The two files differ here only in the name of the state that ends the booking:
  \<open>Done\<close> in dm.ts, \<open>DoneMeeting\<close> in dm4.ts. It is the parameter \<open>done\<close>.
\<close>

definition confirmQuestion :: "string \<Rightarrow> string \<Rightarrow> string \<Rightarrow> bool \<Rightarrow> string" where
  "confirmQuestion name dy tm whole =
     ''Do you want me to create an appointment with '' @ name @ '' on '' @ dy @ '' ''
       @ (if whole then ''for the whole day'' else ''at '' @ tm) @ ''?''"

definition AskConfirm_entry :: "sub \<Rightarrow> DMContext \<Rightarrow> error + DMContext \<times> command list" where
  "AskConfirm_entry b c =
     (case b of
        Prompt \<Rightarrow>
          speak (confirmQuestion (str (nameResult c)) (str (dayResult c)) (str (timeResult c))
                   (timeResult c = Some ''whole day'')) c
      | NoInput \<Rightarrow> speak didntHear c
      | InvalidYesNo \<Rightarrow> speakHeard (\<lambda>u. apology @ u @ '' is not a yes or no response.'') c
      | InvalidInput \<Rightarrow>
          speakHeard (\<lambda>u. apology @ ''I heard '' @ u @ ''. Please answer with yes or no.'') c
      | WholeDay \<Rightarrow> wholeDay c
      | Listen \<Rightarrow> Inr (c, [LISTEN])
      | _ \<Rightarrow> Inr (c, []))"

definition AskConfirm_on :: "state \<Rightarrow> sub \<Rightarrow> event \<Rightarrow> DMContext transition list" where
  "AskConfirm_on done b ev =
     (case b of
        Prompt \<Rightarrow> toListen AskConfirm ev
      | NoInput \<Rightarrow> toPrompt AskConfirm ev
      | InvalidYesNo \<Rightarrow> toPrompt AskConfirm ev
      | InvalidInput \<Rightarrow> toPrompt AskConfirm ev
      | WholeDay \<Rightarrow> (case ev of SPEAK_COMPLETE \<Rightarrow> [goto done] | _ \<Rightarrow> [])
      | Listen \<Rightarrow> Listen_on ev
      | _ \<Rightarrow> [])"

definition AskConfirm_always :: "state \<Rightarrow> sub \<Rightarrow> DMContext transition list" where
  "AskConfirm_always done b =
     (case b of
        ValidateInput \<Rightarrow>
          [enterIf (whenHeard (\<lambda>u. isNo (toLowerCase u))) AskName,
           gotoIf (whenHeard (\<lambda>u. isYes (toLowerCase u))) done,
           gotoIf (whenHeard (\<lambda>u. \<not> isNo (toLowerCase u) \<or> \<not> isYes (toLowerCase u)))
             (In AskConfirm InvalidInput)]
      | _ \<Rightarrow> [])"

text \<open>
  The \<open>LISTEN_COMPLETE\<close> array of a compound state whose guard is \<open>!!context.lastResult\<close>:
  all five of dm.ts, and \<open>AskWhat\<close> and \<open>AskConfirm\<close> of dm4.ts.
\<close>

definition slot_on :: "slot \<Rightarrow> event \<Rightarrow> DMContext transition list" where
  "slot_on sl ev =
     (case ev of
        LISTEN_COMPLETE \<Rightarrow>
          [gotoIf (\<lambda>c. Inr (lastResult c \<noteq> Null)) (In sl ValidateInput),
           goto (In sl NoInput)]
      | _ \<Rightarrow> [])"

subsection \<open>The machine \<open>DM\<close> of dm.ts\<close>

definition initialContext :: DMContext where
  "initialContext =
     \<lparr>lastResult = Null, nameResult = None, dayResult = None, timeResult = None,
      nluIntent = None, nluEntities = None\<rparr>"

text \<open>The initial child of each compound state of dm.ts is its prompt.\<close>

definition initial :: "slot \<Rightarrow> state" where
  "initial sl = In sl Prompt"

text \<open>The entry actions of each state node.\<close>

definition entry :: "state \<Rightarrow> DMContext \<Rightarrow> error + DMContext \<times> command list" where
  "entry s c =
     (case s of
        Prepare \<Rightarrow> Inr (c, [PREPARE])
      | Greeting \<Rightarrow> speak ''Hi! Let's create an appointment.'' c
      | In sl b \<Rightarrow>
          (case sl of
             AskName \<Rightarrow> AskName_entry b c
           | AskDay \<Rightarrow> AskDay_entry b c
           | AskFullDay \<Rightarrow> AskFullDay_entry b c
           | AskTime \<Rightarrow> AskTime_entry b c
           | AskConfirm \<Rightarrow> AskConfirm_entry b c
           | _ \<Rightarrow> Inr (c, []))
      | Done \<Rightarrow> speak ''Your appointment has been created!'' c
      | _ \<Rightarrow> Inr (c, []))"

text \<open>
  The transitions that an event can take in a state: those of the child state first,
  then those of its compound state (\<open>LISTEN_COMPLETE\<close>).
\<close>

definition on :: "state \<Rightarrow> event \<Rightarrow> DMContext transition list" where
  "on s ev =
     (case s of
        Prepare \<Rightarrow> (case ev of ASRTTS_READY \<Rightarrow> [goto WaitToStart] | _ \<Rightarrow> [])
      | WaitToStart \<Rightarrow> (case ev of CLICK \<Rightarrow> [goto Greeting] | _ \<Rightarrow> [])
      | Greeting \<Rightarrow> (case ev of SPEAK_COMPLETE \<Rightarrow> [enter AskName] | _ \<Rightarrow> [])
      | In sl b \<Rightarrow>
          (case sl of
             AskName \<Rightarrow> AskName_on b ev @ slot_on AskName ev
           | AskDay \<Rightarrow> AskDay_on b ev @ slot_on AskDay ev
           | AskFullDay \<Rightarrow> AskFullDay_on b ev @ slot_on AskFullDay ev
           | AskTime \<Rightarrow> AskTime_on b ev @ slot_on AskTime ev
           | AskConfirm \<Rightarrow> AskConfirm_on Done b ev @ slot_on AskConfirm ev
           | _ \<Rightarrow> [])
      | Done \<Rightarrow> (case ev of CLICK \<Rightarrow> [goto Greeting] | _ \<Rightarrow> [])
      | _ \<Rightarrow> [])"

text \<open>The eventless (\<open>always\<close>) transitions of a state.\<close>

definition always :: "state \<Rightarrow> DMContext transition list" where
  "always s =
     (case s of
        In sl b \<Rightarrow>
          (case sl of
             AskName \<Rightarrow> AskName_always b
           | AskDay \<Rightarrow> AskDay_always b
           | AskFullDay \<Rightarrow> AskFullDay_always b
           | AskTime \<Rightarrow> AskTime_always b
           | AskConfirm \<Rightarrow> AskConfirm_always Done b
           | _ \<Rightarrow> [])
      | _ \<Rightarrow> [])"

text \<open>
  After a state is entered, its eventless transitions are taken until none is enabled.
  In dm.ts only \<open>ValidateInput\<close> has such transitions, and none of their targets has:
  \<open>rank\<close> bounds the length of a chain.
\<close>

definition rank :: "state \<Rightarrow> nat" where
  "rank s = (case s of In sl b \<Rightarrow> (case b of ValidateInput \<Rightarrow> 1 | _ \<Rightarrow> 0) | _ \<Rightarrow> 0)"

lemma select_mem: "select ts c = Inr (Some t) \<Longrightarrow> t \<in> set ts"
  by (induction ts) (auto split: sum.splits bool.splits if_splits)

lemma fire_target:
  "fire en ini t c = Inr (Some s', r) \<Longrightarrow>
     target t = Some (Atomic s') \<or> (\<exists>sl. target t = Some (Compound sl) \<and> s' = ini sl)"
  by (auto simp: fire_def Let_def split: sum.splits option.splits node.splits prod.splits)

lemma always_rank:
  assumes "t \<in> set (always s)"
  shows "(target t = Some (Atomic s') \<longrightarrow> rank s' < rank s)
           \<and> (target t = Some (Compound sl) \<longrightarrow> rank (initial sl) < rank s)"
proof (cases s)
  case (In sl' b)
  with assms show ?thesis
    by (cases sl'; cases b)
       (auto simp: always_def rank_def initial_def gotoIf_def enterIf_def
          AskName_always_def AskDay_always_def AskFullDay_always_def AskTime_always_def
          AskConfirm_always_def)
qed (use assms in \<open>auto simp: always_def\<close>)

function settle ::
  "state \<Rightarrow> DMContext \<Rightarrow> command list \<Rightarrow> error + state \<times> DMContext \<times> command list" where
  "settle s c out =
     (case select (always s) c of
        Inl e \<Rightarrow> Inl e
      | Inr None \<Rightarrow> Inr (s, c, out)
      | Inr (Some t) \<Rightarrow>
          (case fire entry initial t c of
             Inl e \<Rightarrow> Inl e
           | Inr (None, c1, out1) \<Rightarrow> Inr (s, c1, out @ out1)
           | Inr (Some s', c1, out1) \<Rightarrow> settle s' c1 (out @ out1)))"
  by pat_completeness auto
termination
  by (relation "measure (\<lambda>(s, c, out). rank s)")
     (auto dest!: select_mem fire_target dest: always_rank)

declare settle.simps [simp del]

text \<open>
  One event: the first enabled transition is taken and the machine settles in the state
  entered (or where it is, for a transition without a target). An event that no
  transition takes is dropped.
\<close>

definition step ::
  "state \<Rightarrow> event \<Rightarrow> DMContext \<Rightarrow> error + state \<times> DMContext \<times> command list" where
  "step s ev c =
     (case select (on s ev) c of
        Inl e \<Rightarrow> Inl e
      | Inr None \<Rightarrow> Inr (s, c, [])
      | Inr (Some t) \<Rightarrow>
          (case fire entry initial t c of
             Inl e \<Rightarrow> Inl e
           | Inr (None, c1, out1) \<Rightarrow> settle s c1 out1
           | Inr (Some s', c1, out1) \<Rightarrow> settle s' c1 out1))"

section \<open>The NLU variant: the machine of dm4.ts\<close>

text \<open>
  dm4.ts is dm.ts with the router \<open>AskWhat\<close>, the informational state \<open>WhoIs\<close>, a
  \<open>CheckFor...\<close> child in front of four prompts, other \<open>LISTEN_COMPLETE\<close> guards in those
  four compound states, and a reset on entry to \<open>Done\<close> and \<open>DoneMeeting\<close>. A state
  whose text is the same in both files uses the definition above.
\<close>

definition initialContext4 :: DMContext where
  "initialContext4 =
     \<lparr>lastResult = Null, nameResult = Some [], dayResult = Some [], timeResult = Some [],
      nluIntent = Some [], nluEntities = None\<rparr>"

text \<open>
  The \<open>LISTEN_COMPLETE\<close> guard of \<open>AskName\<close>, \<open>AskDay\<close>, \<open>AskFullDay\<close> and \<open>AskTime\<close>:
  \<open>!!context.nameResult || !!context.lastResult![0].utterance\<close>, the second operand
  evaluated only when the first is false.
\<close>

definition filledOrHeard :: "(DMContext \<Rightarrow> string option) \<Rightarrow> DMContext \<Rightarrow> error + bool" where
  "filledOrHeard slotValue c =
     (if truthy (slotValue c) then Inr True
      else case lastUtterance c of Inl e \<Rightarrow> Inl e | Inr u \<Rightarrow> Inr (u \<noteq> []))"

definition slot_on4 ::
  "slot \<Rightarrow> (DMContext \<Rightarrow> string option) \<Rightarrow> event \<Rightarrow> DMContext transition list" where
  "slot_on4 sl slotValue ev =
     (case ev of
        LISTEN_COMPLETE \<Rightarrow>
          [gotoIf (filledOrHeard slotValue) (In sl ValidateInput),
           goto (In sl NoInput)]
      | _ \<Rightarrow> [])"

subsection \<open>AskWhat and WhoIs (dm4.ts lines 155-289)\<close>

text \<open>The loop over the entities of the \<open>RECOGNISED\<close> action: a later entity overwrites.\<close>

definition applyEntity :: "DMContext \<Rightarrow> Entity \<Rightarrow> DMContext" where
  "applyEntity c entity =
     (if category entity = ''personName'' then c\<lparr>nameResult := Some (text_of entity)\<rparr>
      else if category entity = ''apptTime'' then c\<lparr>timeResult := Some (text_of entity)\<rparr>
      else if category entity = ''apptDay'' then c\<lparr>dayResult := Some (text_of entity)\<rparr>
      else c)"

text \<open>
  The \<open>assign\<close> of \<open>AskWhat.Listen\<close>: reading \<open>event.nluValue.entities\<close> throws when the
  event has no \<open>nluValue\<close>.
\<close>

definition recognisedNLU :: "NluValue option \<Rightarrow> DMContext \<Rightarrow> error + DMContext" where
  "recognisedNLU n c =
     (case n of
        None \<Rightarrow> Inl TypeError
      | Some v \<Rightarrow>
          Inr ((foldl applyEntity c (case entities v of None \<Rightarrow> [] | Some es \<Rightarrow> es))
                 \<lparr>lastResult := Nlu v, nluIntent := Some (topIntent v),
                  nluEntities := entities v\<rparr>))"

definition AskWhat_entry :: "sub \<Rightarrow> DMContext \<Rightarrow> error + DMContext \<times> command list" where
  "AskWhat_entry b c =
     (case b of
        Prompt \<Rightarrow> speak ''What can I help you with?'' c
      | NoInput \<Rightarrow> speak didntHear c
      | InvalidInput \<Rightarrow>
          speak ''Sorry, I didn't understand that. You can ask to make an appointment or ask about a person.'' c
      | ValidInput \<Rightarrow> speak ''All right, let's go!'' c
      | Listen \<Rightarrow> Inr (c, [LISTEN_NLU])
      | _ \<Rightarrow> Inr (c, []))"

definition AskWhat_on :: "sub \<Rightarrow> event \<Rightarrow> DMContext transition list" where
  "AskWhat_on b ev =
     (case b of
        Prompt \<Rightarrow> toListen AskWhat ev
      | NoInput \<Rightarrow> toPrompt AskWhat ev
      | InvalidInput \<Rightarrow> toPrompt AskWhat ev
      | ValidInput \<Rightarrow>
          (case ev of
             SPEAK_COMPLETE \<Rightarrow>
               [enterIf (\<lambda>c. Inr (nluIntent c = Some ''CreateMeeting'')) AskName,
                gotoIf (\<lambda>c. Inr (nluIntent c = Some ''WhoIs'')) WhoIs]
           | _ \<Rightarrow> [])
      | Listen \<Rightarrow>
          (case ev of
             RECOGNISED v n \<Rightarrow> [assign (recognisedNLU n)]
           | ASR_NOINPUT \<Rightarrow> [assign (\<lambda>c. Inr (c\<lparr>lastResult := Null\<rparr>))]
           | _ \<Rightarrow> [])
      | _ \<Rightarrow> [])"

definition AskWhat_always :: "sub \<Rightarrow> DMContext transition list" where
  "AskWhat_always b =
     (case b of
        ValidateInput \<Rightarrow>
          [gotoIf (\<lambda>c. Inr (nluIntent c \<noteq> Some ''None'')) (In AskWhat ValidInput),
           gotoIf (\<lambda>c. Inr (nluIntent c = Some ''None'')) (In AskWhat InvalidInput)]
      | _ \<Rightarrow> [])"

text \<open>
  \<open>personInfo[name.toLowerCase()] || "I couldn't find any information."\<close>. A name that
  is a property of \<open>Object.prototype\<close> reads that property; a template literal prints
  the prototype object as \<open>[object Object]\<close> and a built-in function by its
  \<open>toString\<close>, here in the form V8 gives it.
\<close>

definition printedInherited :: "string \<Rightarrow> string" where
  "printedInherited key =
     (if key = ''__proto__'' then ''[object Object]''
      else if key = ''constructor'' then ''function Object() { [native code] }''
      else ''function '' @ key @ ''() { [native code] }'')"

definition personDescription :: "string \<Rightarrow> string" where
  "personDescription name =
     (let key = toLowerCase name
      in case map_of personInfo key of
           Some d \<Rightarrow> if d = [] then ''I couldn't find any information.'' else d
         | None \<Rightarrow>
             if key \<in> set objectPrototype then printedInherited key
             else ''I couldn't find any information.'')"

definition WhoIs_entry :: "DMContext \<Rightarrow> error + DMContext \<times> command list" where
  "WhoIs_entry c =
     (let name = (case nameResult c of None \<Rightarrow> ''Unknown'' | Some s \<Rightarrow> s)
      in speak (if nameResult c = Some []
                then ''Sorry, '' @ personDescription name
                       @ '' I can only give information if I have the name of a person.''
                else ''ok, you want to know about '' @ str (nameResult c) @ ''. ''
                       @ personDescription name) c)"

subsection \<open>AskName (dm4.ts lines 296-408)\<close>

text \<open>
  The \<open>assign\<close> on entry to \<open>ValidateInput\<close>:
  \<open>getPerson(context.nameResult) || getPerson(context.lastResult![0].utterance)\<close>, then
  \<open>person || "Unknown"\<close>. The second \<open>getPerson\<close> is evaluated only when the first one
  finds no person.
\<close>

definition validateName :: "DMContext \<Rightarrow> error + DMContext" where
  "validateName c =
     (case nameResult c of
        None \<Rightarrow> Inl TypeError
      | Some name \<Rightarrow>
          if truthy (getPerson name)
          then Inr (c\<lparr>nameResult := Some (orElse (getPerson name) ''Unknown'')\<rparr>)
          else (case lastUtterance c of
                  Inl e \<Rightarrow> Inl e
                | Inr u \<Rightarrow> Inr (c\<lparr>nameResult := Some (orElse (getPerson u) ''Unknown'')\<rparr>)))"

definition AskName4_entry :: "sub \<Rightarrow> DMContext \<Rightarrow> error + DMContext \<times> command list" where
  "AskName4_entry b c =
     (case b of
        InvalidInput \<Rightarrow>
          speak (apology @ ''there does not seem to be a person with the name  ''
                   @ str (nameResult c) @ '' in our system.'') c
      | ValidInput \<Rightarrow>
          speak (if nameResult c = Some ''Unknown''
                 then ''Sorry, I did not recognise that name.''
                 else ''ok, you are meeting with '' @ str (nameResult c)) c
      | ValidateInput \<Rightarrow>
          (case validateName c of Inl e \<Rightarrow> Inl e | Inr c' \<Rightarrow> Inr (c', []))
      | _ \<Rightarrow> AskName_entry b c)"

definition AskName4_always :: "sub \<Rightarrow> DMContext transition list" where
  "AskName4_always b =
     (case b of
        CheckFor \<Rightarrow>
          [gotoIf (\<lambda>c. Inr (nameResult c \<noteq> Some [])) (In AskName ValidateInput),
           goto (In AskName Prompt)]
      | ValidateInput \<Rightarrow>
          [gotoIf (\<lambda>c. Inr (nameResult c \<noteq> Some ''Unknown'')) (In AskName ValidInput),
           gotoIf (\<lambda>c. Inr (nameResult c = Some ''Unknown'')) (In AskName InvalidInput)]
      | _ \<Rightarrow> [])"

subsection \<open>AskDay and AskFullDay (dm4.ts lines 409-633)\<close>

definition AskDay4_always :: "sub \<Rightarrow> DMContext transition list" where
  "AskDay4_always b =
     (case b of
        CheckFor \<Rightarrow>
          [enterIf (\<lambda>c. Inr (dayResult c \<noteq> Some [])) AskFullDay,
           goto (In AskDay Prompt)]
      | _ \<Rightarrow> AskDay_always b)"

definition AskFullDay4_always :: "sub \<Rightarrow> DMContext transition list" where
  "AskFullDay4_always b =
     (case b of
        CheckFor \<Rightarrow>
          [enterIf (\<lambda>c. Inr (timeResult c \<noteq> Some [])) AskTime,
           goto (In AskFullDay Prompt)]
      | _ \<Rightarrow> AskFullDay_always b)"

subsection \<open>AskTime (dm4.ts lines 634-736)\<close>

text \<open>
  The guards of \<open>ValidateInput\<close>:
  \<open>isInGrammar(context.timeResult) || isInGrammar(context.lastResult![0].utterance)\<close> and
  \<open>!isInGrammar(context.timeResult) || !isInGrammar(context.lastResult![0].utterance)\<close>.
\<close>

definition timeInGrammar :: "DMContext \<Rightarrow> error + bool" where
  "timeInGrammar c =
     (case timeResult c of
        None \<Rightarrow> Inl TypeError
      | Some t \<Rightarrow> if isInGrammar t then Inr True else whenHeard (\<lambda>u. isInGrammar u) c)"

definition timeNotInGrammar :: "DMContext \<Rightarrow> error + bool" where
  "timeNotInGrammar c =
     (case timeResult c of
        None \<Rightarrow> Inl TypeError
      | Some t \<Rightarrow> if \<not> isInGrammar t then Inr True else whenHeard (\<lambda>u. \<not> isInGrammar u) c)"

text \<open>
  \<open>ValidInput\<close> keeps a time that is already there:
  \<open>context.timeResult || context.lastResult![0].utterance || "Unknown"\<close>.
\<close>

definition AskTime4_entry :: "sub \<Rightarrow> DMContext \<Rightarrow> error + DMContext \<times> command list" where
  "AskTime4_entry b c =
     (case b of
        ValidInput \<Rightarrow>
          (if truthy (timeResult c)
           then Inr (c, [SPEAK (''ok, '' @ str (timeResult c))])
           else (case lastUtterance c of
                   Inl e \<Rightarrow> Inl e
                 | Inr u \<Rightarrow>
                     (let c' = c\<lparr>timeResult := Some (orElse (Some u) ''Unknown'')\<rparr>
                      in Inr (c', [SPEAK (''ok, '' @ str (timeResult c'))]))))
      | _ \<Rightarrow> AskTime_entry b c)"

definition AskTime4_always :: "sub \<Rightarrow> DMContext transition list" where
  "AskTime4_always b =
     (case b of
        CheckFor \<Rightarrow>
          [gotoIf (\<lambda>c. Inr (timeResult c \<noteq> Some [])) (In AskTime ValidateInput),
           goto (In AskTime Prompt)]
      | ValidateInput \<Rightarrow>
          [gotoIf timeInGrammar (In AskTime ValidInput),
           gotoIf timeNotInGrammar (In AskTime InvalidInput)]
      | _ \<Rightarrow> [])"

subsection \<open>The machine \<open>DM\<close> of dm4.ts\<close>

text \<open>The \<open>assign\<close> on entry to \<open>Done\<close> and \<open>DoneMeeting\<close> (dm4.ts lines 850-887).\<close>

definition resetContext :: "DMContext \<Rightarrow> DMContext" where
  "resetContext c =
     c\<lparr>lastResult := Null, nameResult := Some [], dayResult := Some [],
       timeResult := Some [], nluIntent := Some [], nluEntities := None\<rparr>"

definition initial4 :: "slot \<Rightarrow> state" where
  "initial4 sl =
     (case sl of
        AskWhat \<Rightarrow> In AskWhat Prompt
      | AskConfirm \<Rightarrow> In AskConfirm Prompt
      | _ \<Rightarrow> In sl CheckFor)"

definition entry4 :: "state \<Rightarrow> DMContext \<Rightarrow> error + DMContext \<times> command list" where
  "entry4 s c =
     (case s of
        Prepare \<Rightarrow> Inr (c, [PREPARE])
      | WaitToStart \<Rightarrow> Inr (c, [])
      | Greeting \<Rightarrow> speak ''Hi NLU!'' c
      | In sl b \<Rightarrow>
          (case sl of
             AskWhat \<Rightarrow> AskWhat_entry b c
           | AskName \<Rightarrow> AskName4_entry b c
           | AskDay \<Rightarrow> AskDay_entry b c
           | AskFullDay \<Rightarrow> AskFullDay_entry b c
           | AskTime \<Rightarrow> AskTime4_entry b c
           | AskConfirm \<Rightarrow> AskConfirm_entry b c)
      | WhoIs \<Rightarrow> WhoIs_entry c
      | Done \<Rightarrow>
          speak ''Thank you for using Jenny's dialogue system lab! Goodbye!'' (resetContext c)
      | DoneMeeting \<Rightarrow>
          speak ''Ok, your meeting has been set up! Goodbye!'' (resetContext c))"

definition on4 :: "state \<Rightarrow> event \<Rightarrow> DMContext transition list" where
  "on4 s ev =
     (case s of
        Prepare \<Rightarrow> (case ev of ASRTTS_READY \<Rightarrow> [goto WaitToStart] | _ \<Rightarrow> [])
      | WaitToStart \<Rightarrow> (case ev of CLICK \<Rightarrow> [goto Greeting] | _ \<Rightarrow> [])
      | Greeting \<Rightarrow> (case ev of SPEAK_COMPLETE \<Rightarrow> [enter AskWhat] | _ \<Rightarrow> [])
      | In sl b \<Rightarrow>
          (case sl of
             AskWhat \<Rightarrow> AskWhat_on b ev @ slot_on AskWhat ev
           | AskName \<Rightarrow> AskName_on b ev @ slot_on4 AskName nameResult ev
           | AskDay \<Rightarrow> AskDay_on b ev @ slot_on4 AskDay dayResult ev
           | AskFullDay \<Rightarrow> AskFullDay_on b ev @ slot_on4 AskFullDay timeResult ev
           | AskTime \<Rightarrow> AskTime_on b ev @ slot_on4 AskTime timeResult ev
           | AskConfirm \<Rightarrow> AskConfirm_on DoneMeeting b ev @ slot_on AskConfirm ev)
      | WhoIs \<Rightarrow> (case ev of SPEAK_COMPLETE \<Rightarrow> [goto Done] | _ \<Rightarrow> [])
      | Done \<Rightarrow> (case ev of CLICK \<Rightarrow> [goto Greeting] | _ \<Rightarrow> [])
      | DoneMeeting \<Rightarrow> (case ev of CLICK \<Rightarrow> [goto Greeting] | _ \<Rightarrow> []))"

definition always4 :: "state \<Rightarrow> DMContext transition list" where
  "always4 s =
     (case s of
        In sl b \<Rightarrow>
          (case sl of
             AskWhat \<Rightarrow> AskWhat_always b
           | AskName \<Rightarrow> AskName4_always b
           | AskDay \<Rightarrow> AskDay4_always b
           | AskFullDay \<Rightarrow> AskFullDay4_always b
           | AskTime \<Rightarrow> AskTime4_always b
           | AskConfirm \<Rightarrow> AskConfirm_always DoneMeeting b)
      | _ \<Rightarrow> [])"

text \<open>
  The eventless transitions of dm4.ts form chains, the longest from \<open>AskDay.CheckForDay\<close>
  through \<open>AskFullDay.CheckForTime\<close> and \<open>AskTime.CheckForTime\<close> to
  \<open>AskTime.ValidateInput\<close>; \<open>rank4\<close> is the number of transitions left on the longest
  chain from a state, so no chain comes back.
\<close>

definition rank4 :: "state \<Rightarrow> nat" where
  "rank4 s =
     (case s of
        In sl b \<Rightarrow>
          (case b of
             ValidateInput \<Rightarrow> (case sl of AskFullDay \<Rightarrow> 3 | AskConfirm \<Rightarrow> 3 | _ \<Rightarrow> 1)
           | CheckFor \<Rightarrow>
               (case sl of AskName \<Rightarrow> 2 | AskTime \<Rightarrow> 2 | AskFullDay \<Rightarrow> 3 | AskDay \<Rightarrow> 4
                | _ \<Rightarrow> 0)
           | _ \<Rightarrow> 0)
      | _ \<Rightarrow> 0)"

lemma always4_rank:
  assumes "t \<in> set (always4 s)"
  shows "(target t = Some (Atomic s') \<longrightarrow> rank4 s' < rank4 s)
           \<and> (target t = Some (Compound sl) \<longrightarrow> rank4 (initial4 sl) < rank4 s)"
proof (cases s)
  case (In sl' b)
  with assms show ?thesis
    by (cases sl'; cases b)
       (auto simp: always4_def rank4_def initial4_def gotoIf_def enterIf_def goto_def
          AskWhat_always_def AskName4_always_def AskDay4_always_def AskDay_always_def
          AskFullDay4_always_def AskFullDay_always_def AskTime4_always_def
          AskConfirm_always_def)
qed (use assms in \<open>auto simp: always4_def\<close>)

function settle4 ::
  "state \<Rightarrow> DMContext \<Rightarrow> command list \<Rightarrow> error + state \<times> DMContext \<times> command list" where
  "settle4 s c out =
     (case select (always4 s) c of
        Inl e \<Rightarrow> Inl e
      | Inr None \<Rightarrow> Inr (s, c, out)
      | Inr (Some t) \<Rightarrow>
          (case fire entry4 initial4 t c of
             Inl e \<Rightarrow> Inl e
           | Inr (None, c1, out1) \<Rightarrow> Inr (s, c1, out @ out1)
           | Inr (Some s', c1, out1) \<Rightarrow> settle4 s' c1 (out @ out1)))"
  by pat_completeness auto
termination
  by (relation "measure (\<lambda>(s, c, out). rank4 s)")
     (auto dest!: select_mem fire_target dest: always4_rank)

declare settle4.simps [simp del]

definition step4 ::
  "state \<Rightarrow> event \<Rightarrow> DMContext \<Rightarrow> error + state \<times> DMContext \<times> command list" where
  "step4 s ev c =
     (case select (on4 s ev) c of
        Inl e \<Rightarrow> Inl e
      | Inr None \<Rightarrow> Inr (s, c, [])
      | Inr (Some t) \<Rightarrow>
          (case fire entry4 initial4 t c of
             Inl e \<Rightarrow> Inl e
           | Inr (None, c1, out1) \<Rightarrow> settle4 s c1 out1
           | Inr (Some s', c1, out1) \<Rightarrow> settle4 s' c1 out1))"

section \<open>Reading a run\<close>

text \<open>
  The target of the transition that an array selects: the branch taken, before the
  target's entry actions run.
\<close>

definition branch :: "'c transition list \<Rightarrow> 'c \<Rightarrow> error + node option" where
  "branch ts c =
     (case select ts c of
        Inl e \<Rightarrow> Inl e
      | Inr None \<Rightarrow> Inr None
      | Inr (Some t) \<Rightarrow> Inr (target t))"

text \<open>A \<open>RECOGNISED\<close> event with one hypothesis, and a context that holds it.\<close>

definition heard :: "string \<Rightarrow> event" where
  "heard u = RECOGNISED [\<lparr>utterance = u, confidence = 1\<rparr>] None"

definition havingHeard :: "string \<Rightarrow> DMContext \<Rightarrow> DMContext" where
  "havingHeard u c = c\<lparr>lastResult := Hyps [\<lparr>utterance = u, confidence = 1\<rparr>]\<rparr>"

text \<open>An NLU result with an intent and no entity.\<close>

definition classified :: "string \<Rightarrow> event" where
  "classified intent = RECOGNISED [] (Some \<lparr>topIntent = intent, entities = Some []\<rparr>)"

text \<open>
  One turn of the user at a prompt: the prompt has been spoken, an utterance is
  recognised, listening is complete.
\<close>

definition turn :: "string \<Rightarrow> event list" where
  "turn u = [SPEAK_COMPLETE, heard u, LISTEN_COMPLETE]"

definition finalState :: "error + state \<times> 'c \<times> command list \<Rightarrow> state option" where
  "finalState r = (case r of Inl e \<Rightarrow> None | Inr (s, c, out) \<Rightarrow> Some s)"

definition finalContext :: "error + state \<times> 'c \<times> command list \<Rightarrow> 'c option" where
  "finalContext r = (case r of Inl e \<Rightarrow> None | Inr (s, c, out) \<Rightarrow> Some c)"

text \<open>The condition \<open>entity.category === 'personName'\<close> of the entity loop.\<close>

definition isPersonName :: "Entity \<Rightarrow> bool" where
  "isPersonName e = (category e = ''personName'')"

text \<open>
  The contexts of a dm.ts session in which the user answers \<open>vlad\<close>, \<open>monday\<close> and
  \<open>yes\<close> (the whole day): after the name, after the day, and at the confirmation.
\<close>

definition named :: DMContext where
  "named = \<lparr>lastResult = Hyps [\<lparr>utterance = ''vlad'', confidence = 1\<rparr>],
            nameResult = Some ''Vladislav Maraev'', dayResult = None, timeResult = None,
            nluIntent = None, nluEntities = None\<rparr>"

definition dated :: DMContext where
  "dated = \<lparr>lastResult = Hyps [\<lparr>utterance = ''monday'', confidence = 1\<rparr>],
            nameResult = Some ''Vladislav Maraev'', dayResult = Some ''monday'',
            timeResult = None, nluIntent = None, nluEntities = None\<rparr>"

definition booked :: DMContext where
  "booked = \<lparr>lastResult = Hyps [\<lparr>utterance = ''yes'', confidence = 1\<rparr>],
             nameResult = Some ''Vladislav Maraev'', dayResult = Some ''monday'',
             timeResult = Some ''whole day'', nluIntent = None, nluEntities = None\<rparr>"

text \<open>
  The context of a dm4.ts session whose opening utterance is classified as
  \<open>CreateMeeting\<close> with no entity: the machine then asks for the name.
\<close>

definition routed :: DMContext where
  "routed = initialContext4
     \<lparr>lastResult := Nlu \<lparr>topIntent = ''CreateMeeting'', entities = Some []\<rparr>,
      nluIntent := Some ''CreateMeeting'', nluEntities := Some []\<rparr>"

section \<open>Facts about the lexicon\<close>

lemma isUpper_bit5: "\<not> isUpper (Char b0 b1 b2 b3 b4 True b6 b7)"
  by (auto simp: isUpper_def Let_def)

lemma toLowerChar_idem: "toLowerChar (toLowerChar ch) = toLowerChar ch"
  by (cases ch) (simp add: isUpper_bit5)

lemma toLowerCase_idem: "toLowerCase (toLowerCase u) = toLowerCase u"
  by (simp add: toLowerCase_def toLowerChar_idem)

lemma isNo_lower: "isNo (toLowerCase u) = isNo u"
  by (simp add: isNo_def toLowerCase_idem)

lemma isYes_lower: "isYes (toLowerCase u) = isYes u"
  by (simp add: isYes_def toLowerCase_idem)

lemma yes_not_no: "isYes u \<Longrightarrow> \<not> isNo u"
  by (auto simp: isYes_def isNo_def yesPhrases_def noPhrases_def)

lemma validDay_own: "validateDay u \<Longrightarrow> toLowerCase u \<notin> set objectPrototype"
  by (auto simp: validateDay_def validDay_def objectPrototype_def)

lemma validDay_bookable:
  "validateDay u \<Longrightarrow> isInGrammar u = (toLowerCase u \<in> fst ` set grammarTable)"
  by (simp add: isInGrammar_def validDay_own)

lemma validDay_nonempty: "validateDay u \<Longrightarrow> u \<noteq> []"
  by (auto simp: validateDay_def validDay_def toLowerCase_def)

lemma grammar_keys: "dom grammar = fst ` set grammarTable"
  by (simp add: grammar_def dom_map_of_conv_image_fst)

lemma getPerson_values:
  "getPerson u = Some p \<Longrightarrow>
     p \<in> {''Vladislav Maraev'', ''Nayat Astaiza Soriano'', ''Victoria Daniilidou''}"
  by (auto simp: getPerson_def grammar_def grammarTable_def noEntry_def
      split: option.splits if_splits)

lemma getPerson_no: "isNo u \<Longrightarrow> getPerson u = None"
  by (auto simp: getPerson_def grammar_def grammarTable_def noEntry_def isNo_def noPhrases_def
      split: option.splits if_splits)

section \<open>Runs in two parts\<close>

lemma run_single: "run stp s c [ev] = stp s ev c"
  by (simp split: sum.splits prod.splits)

lemma run_append:
  "run stp s c (evs @ evs') =
     (case run stp s c evs of
        Inl e \<Rightarrow> Inl e
      | Inr (s1, c1, out1) \<Rightarrow>
          (case run stp s1 c1 evs' of
             Inl e \<Rightarrow> Inl e
           | Inr (s2, c2, out2) \<Rightarrow> Inr (s2, c2, out1 @ out2)))"
  by (induction evs arbitrary: s c) (auto split: sum.splits prod.splits)

lemma run_then:
  assumes "run stp s c evs = Inr (s1, c1, out1)" and "stp s1 ev c1 = Inr (s2, c2, out2)"
  shows "run stp s c (evs @ [ev]) = Inr (s2, c2, out1 @ out2)"
  by (simp add: run_append assms run_single del: run.simps)

section \<open>Unfolding the two machines\<close>

lemmas shape_defs =
  fire_def goto_def gotoIf_def enter_def enterIf_def assign_def whenHeard_def
  lastUtterance_def speak_def speakHeard_def branch_def

lemmas dm_defs = always_def on_def entry_def initial_def shape_defs

lemmas dm4_defs = always4_def on4_def entry4_def initial4_def shape_defs

lemmas slot_defs =
  AskName_on_def AskDay_on_def AskFullDay_on_def AskTime_on_def AskConfirm_on_def
  slot_on_def Listen_on_def toPrompt_def toListen_def
  AskName_always_def AskDay_always_def AskFullDay_always_def AskTime_always_def
  AskConfirm_always_def
  AskName_entry_def AskDay_entry_def AskFullDay_entry_def AskTime_entry_def
  AskConfirm_entry_def

lemmas slot4_defs =
  slot_defs slot_on4_def filledOrHeard_def AskWhat_on_def AskWhat_always_def
  AskWhat_entry_def AskName4_always_def AskName4_entry_def AskDay4_always_def
  AskFullDay4_always_def AskTime4_always_def AskTime4_entry_def

section \<open>Validation at AskDay\<close>

lemma AskDay_settle:
  assumes "lastResult c = Hyps (h # hs)"
  shows "settle (In AskDay ValidateInput) c out =
     (if \<not> validateDay (utterance h)
      then Inr (In AskDay InvalidDay, c,
                out @ [SPEAK (apology @ utterance h @ '' is not a valid weekday name.'')])
      else if isInGrammar (utterance h)
      then Inr (In AskDay ValidInput, c\<lparr>dayResult := Some (utterance h)\<rparr>,
                out @ [SPEAK (''ok, your meeting is on '' @ utterance h)])
      else Inr (In AskDay InvalidInput, c,
                out @ [SPEAK (apology @ utterance h
                                @ '' does not seem to be a bookable day in our system.'')]))"
  using assms
  by (simp add: settle.simps [of "In AskDay ValidateInput"]
       settle.simps [of "In AskDay InvalidDay"] settle.simps [of "In AskDay ValidInput"]
       settle.simps [of "In AskDay InvalidInput"]
       dm_defs AskDay_always_def AskDay_entry_def Let_def str_def orElse_def
       validDay_nonempty)

lemma AskDay_settle4:
  assumes "lastResult c = Hyps (h # hs)"
  shows "settle4 (In AskDay ValidateInput) c out =
     (if \<not> validateDay (utterance h)
      then Inr (In AskDay InvalidDay, c,
                out @ [SPEAK (apology @ utterance h @ '' is not a valid weekday name.'')])
      else if isInGrammar (utterance h)
      then Inr (In AskDay ValidInput, c\<lparr>dayResult := Some (utterance h)\<rparr>,
                out @ [SPEAK (''ok, your meeting is on '' @ utterance h)])
      else Inr (In AskDay InvalidInput, c,
                out @ [SPEAK (apology @ utterance h
                                @ '' does not seem to be a bookable day in our system.'')]))"
  using assms
  by (simp add: settle4.simps [of "In AskDay ValidateInput"]
       settle4.simps [of "In AskDay InvalidDay"] settle4.simps [of "In AskDay ValidInput"]
       settle4.simps [of "In AskDay InvalidInput"]
       dm4_defs AskDay4_always_def AskDay_always_def AskDay_entry_def Let_def str_def
       orElse_def validDay_nonempty)

lemma AskDay_branch:
  assumes "lastResult c = Hyps (h # hs)"
  shows "branch (AskDay_always ValidateInput) c =
     Inr (Some (Atomic (In AskDay
       (if \<not> validateDay (utterance h) then InvalidDay
        else if isInGrammar (utterance h) then ValidInput else InvalidInput))))"
  using assms by (simp add: AskDay_always_def shape_defs)

text \<open>
  C4. For every recognized utterance \<open>u\<close> validated at AskDay, in dm.ts and in dm4.ts:
  if \<open>u\<close> is one of the seven weekday names but no key of the grammar, validation ends
  in \<open>InvalidInput\<close> with the "not a bookable day" apology; if \<open>u\<close> is no weekday name, it
  ends in \<open>InvalidDay\<close> with the "not a valid weekday name" apology; if \<open>u\<close> is a weekday
  name and a key of the grammar, it ends in \<open>ValidInput\<close>, which stores \<open>u\<close> as the day.
  The three conditions exclude each other and cover every utterance, and the array of
  \<open>ValidateInput\<close> selects its first, second or third transition in that order.
\<close>

theorem AskDay_three_outcomes:
  assumes "lastResult c = Hyps (h # hs)" and "u = utterance h"
  shows
    "(validateDay u \<and> toLowerCase u \<notin> fst ` set grammarTable \<longrightarrow>
        settle (In AskDay ValidateInput) c out =
          Inr (In AskDay InvalidInput, c,
               out @ [SPEAK (apology @ u @ '' does not seem to be a bookable day in our system.'')])
        \<and> settle4 (In AskDay ValidateInput) c out =
          Inr (In AskDay InvalidInput, c,
               out @ [SPEAK (apology @ u @ '' does not seem to be a bookable day in our system.'')]))
     \<and> (\<not> validateDay u \<longrightarrow>
        settle (In AskDay ValidateInput) c out =
          Inr (In AskDay InvalidDay, c,
               out @ [SPEAK (apology @ u @ '' is not a valid weekday name.'')])
        \<and> settle4 (In AskDay ValidateInput) c out =
          Inr (In AskDay InvalidDay, c,
               out @ [SPEAK (apology @ u @ '' is not a valid weekday name.'')]))
     \<and> (validateDay u \<and> toLowerCase u \<in> fst ` set grammarTable \<longrightarrow>
        settle (In AskDay ValidateInput) c out =
          Inr (In AskDay ValidInput, c\<lparr>dayResult := Some u\<rparr>,
               out @ [SPEAK (''ok, your meeting is on '' @ u)])
        \<and> settle4 (In AskDay ValidateInput) c out =
          Inr (In AskDay ValidInput, c\<lparr>dayResult := Some u\<rparr>,
               out @ [SPEAK (''ok, your meeting is on '' @ u)]))
     \<and> branch (AskDay_always ValidateInput) c =
          Inr (Some (Atomic (In AskDay
            (if \<not> validateDay u then InvalidDay
             else if toLowerCase u \<in> fst ` set grammarTable then ValidInput
             else InvalidInput))))"
proof -
  have bookable: "validateDay u \<Longrightarrow> isInGrammar u = (toLowerCase u \<in> fst ` set grammarTable)"
    by (rule validDay_bookable)
  have dm: "settle (In AskDay ValidateInput) c out =
     (if \<not> validateDay u
      then Inr (In AskDay InvalidDay, c,
                out @ [SPEAK (apology @ u @ '' is not a valid weekday name.'')])
      else if isInGrammar u
      then Inr (In AskDay ValidInput, c\<lparr>dayResult := Some u\<rparr>,
                out @ [SPEAK (''ok, your meeting is on '' @ u)])
      else Inr (In AskDay InvalidInput, c,
                out @ [SPEAK (apology @ u
                                @ '' does not seem to be a bookable day in our system.'')]))"
    unfolding assms(2) by (rule AskDay_settle [OF assms(1)])
  have dm4: "settle4 (In AskDay ValidateInput) c out =
     (if \<not> validateDay u
      then Inr (In AskDay InvalidDay, c,
                out @ [SPEAK (apology @ u @ '' is not a valid weekday name.'')])
      else if isInGrammar u
      then Inr (In AskDay ValidInput, c\<lparr>dayResult := Some u\<rparr>,
                out @ [SPEAK (''ok, your meeting is on '' @ u)])
      else Inr (In AskDay InvalidInput, c,
                out @ [SPEAK (apology @ u
                                @ '' does not seem to be a bookable day in our system.'')]))"
    unfolding assms(2) by (rule AskDay_settle4 [OF assms(1)])
  have br: "branch (AskDay_always ValidateInput) c =
     Inr (Some (Atomic (In AskDay
       (if \<not> validateDay u then InvalidDay
        else if isInGrammar u then ValidInput else InvalidInput))))"
    unfolding assms(2) by (rule AskDay_branch [OF assms(1)])
  show ?thesis
    using bookable by (simp add: dm dm4 br)
qed

theorem AskDay_three_outcomes_witness:
  "settle (In AskDay ValidateInput) (havingHeard ''Friday'' initialContext) [] =
     Inr (In AskDay InvalidInput, havingHeard ''Friday'' initialContext,
          [SPEAK ''sorry, but Friday does not seem to be a bookable day in our system.''])
   \<and> settle4 (In AskDay ValidateInput) (havingHeard ''xyz'' initialContext4) [] =
     Inr (In AskDay InvalidDay, havingHeard ''xyz'' initialContext4,
          [SPEAK ''sorry, but xyz is not a valid weekday name.''])
   \<and> settle (In AskDay ValidateInput) (havingHeard ''Monday'' initialContext) [] =
     Inr (In AskDay ValidInput, (havingHeard ''Monday'' initialContext)\<lparr>dayResult := Some ''Monday''\<rparr>,
          [SPEAK ''ok, your meeting is on Monday''])"
proof -
  have friday: "validateDay ''Friday'' \<and> toLowerCase ''Friday'' \<notin> fst ` set grammarTable"
    by (simp add: validateDay_def validDay_def toLowerCase_def isUpper_def grammarTable_def)
  have xyz: "\<not> validateDay ''xyz''"
    by (simp add: validateDay_def validDay_def toLowerCase_def isUpper_def)
  have monday: "validateDay ''Monday'' \<and> toLowerCase ''Monday'' \<in> fst ` set grammarTable"
    by (simp add: validateDay_def validDay_def toLowerCase_def isUpper_def grammarTable_def)
  have heardCtx: "\<And>v c0. lastResult (havingHeard v c0) = Hyps [\<lparr>utterance = v, confidence = 1\<rparr>]"
    by (simp add: havingHeard_def)
  show ?thesis
    using AskDay_three_outcomes [OF heardCtx, of "''Friday''" "''Friday''" initialContext "[]"]
      AskDay_three_outcomes [OF heardCtx, of "''xyz''" "''xyz''" initialContext4 "[]"]
      AskDay_three_outcomes [OF heardCtx, of "''Monday''" "''Monday''" initialContext "[]"]
      friday xyz monday
    by (simp add: apology_def)
qed

section \<open>Validation at the yes/no steps\<close>

lemma yesno_branch:
  assumes "lastResult c = Hyps (h # hs)"
  shows "branch (AskFullDay_always ValidateInput) c =
           Inr (Some (if isNo (utterance h) then Compound AskTime
                      else if isYes (utterance h) then Atomic (In AskFullDay WholeDay)
                      else Atomic (In AskFullDay InvalidInput)))"
    and "branch (AskConfirm_always d ValidateInput) c =
           Inr (Some (if isNo (utterance h) then Compound AskName
                      else if isYes (utterance h) then Atomic d
                      else Atomic (In AskConfirm InvalidInput)))"
  using assms
  by (simp_all add: AskFullDay_always_def AskConfirm_always_def shape_defs isNo_lower
        isYes_lower)

lemma always_yesno:
  "always (In AskFullDay ValidateInput) = AskFullDay_always ValidateInput"
  "always4 (In AskFullDay ValidateInput) = AskFullDay_always ValidateInput"
  "always (In AskConfirm ValidateInput) = AskConfirm_always Done ValidateInput"
  "always4 (In AskConfirm ValidateInput) = AskConfirm_always DoneMeeting ValidateInput"
  by (simp_all add: always_def always4_def AskFullDay4_always_def)

lemma invalid_yesno_settle:
  assumes "lastResult c = Hyps (h # hs)" "\<not> isYes (utterance h)" "\<not> isNo (utterance h)"
    and "sl = AskFullDay \<or> sl = AskConfirm"
  shows "settle (In sl ValidateInput) c out =
           Inr (In sl InvalidInput, c,
                out @ [SPEAK (apology @ ''I heard '' @ utterance h
                                @ ''. Please answer with yes or no.'')])"
    and "settle4 (In sl ValidateInput) c out =
           Inr (In sl InvalidInput, c,
                out @ [SPEAK (apology @ ''I heard '' @ utterance h
                                @ ''. Please answer with yes or no.'')])"
  using assms
  by (auto simp: settle.simps [of "In sl ValidateInput" for sl]
        settle.simps [of "In sl InvalidInput" for sl]
        settle4.simps [of "In sl ValidateInput" for sl]
        settle4.simps [of "In sl InvalidInput" for sl]
        dm_defs dm4_defs slot4_defs isNo_lower isYes_lower)

lemma invalid_yesno_reprompt:
  "step (In AskFullDay InvalidInput) SPEAK_COMPLETE c =
     Inr (In AskFullDay Prompt, c, [SPEAK ''Will it take the whole day?''])"
  "step4 (In AskFullDay InvalidInput) SPEAK_COMPLETE c =
     Inr (In AskFullDay Prompt, c, [SPEAK ''Will it take the whole day?''])"
  "step (In AskConfirm InvalidInput) SPEAK_COMPLETE c =
     Inr (In AskConfirm Prompt, c,
          [SPEAK (confirmQuestion (str (nameResult c)) (str (dayResult c)) (str (timeResult c))
                    (timeResult c = Some ''whole day''))])"
  "step4 (In AskConfirm InvalidInput) SPEAK_COMPLETE c =
     Inr (In AskConfirm Prompt, c,
          [SPEAK (confirmQuestion (str (nameResult c)) (str (dayResult c)) (str (timeResult c))
                    (timeResult c = Some ''whole day''))])"
  by (simp_all add: step_def step4_def settle.simps [of "In sl Prompt" for sl]
        settle4.simps [of "In sl Prompt" for sl] dm_defs dm4_defs slot4_defs)

text \<open>
  C5. For every utterance \<open>u\<close> validated at the full-day step and at the confirmation
  step, in dm.ts and in dm4.ts: if \<open>u\<close> is a yes-phrase, the array of \<open>ValidateInput\<close>
  takes its affirmative transition (to \<open>WholeDay\<close>, to \<open>Done\<close> or \<open>DoneMeeting\<close>); if \<open>u\<close>
  is a no-phrase, it takes its negative transition (to \<open>AskTime\<close>, to \<open>AskName\<close>); if \<open>u\<close>
  is neither, validation ends in \<open>InvalidInput\<close> with the "Please answer with yes or
  no" apology, from where \<open>SPEAK_COMPLETE\<close> leads back to the prompt of the same step.
\<close>

theorem yes_no_classification:
  assumes "lastResult c = Hyps (h # hs)" and "u = utterance h"
  shows
    "(isYes u \<longrightarrow>
        branch (always (In AskFullDay ValidateInput)) c
          = Inr (Some (Atomic (In AskFullDay WholeDay)))
        \<and> branch (always4 (In AskFullDay ValidateInput)) c
          = Inr (Some (Atomic (In AskFullDay WholeDay)))
        \<and> branch (always (In AskConfirm ValidateInput)) c = Inr (Some (Atomic Done))
        \<and> branch (always4 (In AskConfirm ValidateInput)) c = Inr (Some (Atomic DoneMeeting)))
     \<and> (isNo u \<longrightarrow>
        branch (always (In AskFullDay ValidateInput)) c = Inr (Some (Compound AskTime))
        \<and> branch (always4 (In AskFullDay ValidateInput)) c = Inr (Some (Compound AskTime))
        \<and> branch (always (In AskConfirm ValidateInput)) c = Inr (Some (Compound AskName))
        \<and> branch (always4 (In AskConfirm ValidateInput)) c = Inr (Some (Compound AskName)))
     \<and> (\<not> isYes u \<and> \<not> isNo u \<longrightarrow>
        settle (In AskFullDay ValidateInput) c out =
          Inr (In AskFullDay InvalidInput, c,
               out @ [SPEAK (apology @ ''I heard '' @ u @ ''. Please answer with yes or no.'')])
        \<and> settle4 (In AskFullDay ValidateInput) c out =
          Inr (In AskFullDay InvalidInput, c,
               out @ [SPEAK (apology @ ''I heard '' @ u @ ''. Please answer with yes or no.'')])
        \<and> settle (In AskConfirm ValidateInput) c out =
          Inr (In AskConfirm InvalidInput, c,
               out @ [SPEAK (apology @ ''I heard '' @ u @ ''. Please answer with yes or no.'')])
        \<and> settle4 (In AskConfirm ValidateInput) c out =
          Inr (In AskConfirm InvalidInput, c,
               out @ [SPEAK (apology @ ''I heard '' @ u @ ''. Please answer with yes or no.'')])
        \<and> step (In AskFullDay InvalidInput) SPEAK_COMPLETE c =
          Inr (In AskFullDay Prompt, c, [SPEAK ''Will it take the whole day?''])
        \<and> step4 (In AskFullDay InvalidInput) SPEAK_COMPLETE c =
          Inr (In AskFullDay Prompt, c, [SPEAK ''Will it take the whole day?''])
        \<and> step (In AskConfirm InvalidInput) SPEAK_COMPLETE c =
          Inr (In AskConfirm Prompt, c,
               [SPEAK (confirmQuestion (str (nameResult c)) (str (dayResult c))
                         (str (timeResult c)) (timeResult c = Some ''whole day''))])
        \<and> step4 (In AskConfirm InvalidInput) SPEAK_COMPLETE c =
          Inr (In AskConfirm Prompt, c,
               [SPEAK (confirmQuestion (str (nameResult c)) (str (dayResult c))
                         (str (timeResult c)) (timeResult c = Some ''whole day''))]))"
proof (intro conjI impI)
  assume yes: "isYes u"
  then have no: "\<not> isNo u" by (rule yes_not_no)
  from yes no show
    "branch (always (In AskFullDay ValidateInput)) c
       = Inr (Some (Atomic (In AskFullDay WholeDay)))"
    "branch (always4 (In AskFullDay ValidateInput)) c
       = Inr (Some (Atomic (In AskFullDay WholeDay)))"
    "branch (always (In AskConfirm ValidateInput)) c = Inr (Some (Atomic Done))"
    "branch (always4 (In AskConfirm ValidateInput)) c = Inr (Some (Atomic DoneMeeting))"
    unfolding assms(2) by (simp_all add: always_yesno yesno_branch [OF assms(1)])
next
  assume no: "isNo u"
  then show
    "branch (always (In AskFullDay ValidateInput)) c = Inr (Some (Compound AskTime))"
    "branch (always4 (In AskFullDay ValidateInput)) c = Inr (Some (Compound AskTime))"
    "branch (always (In AskConfirm ValidateInput)) c = Inr (Some (Compound AskName))"
    "branch (always4 (In AskConfirm ValidateInput)) c = Inr (Some (Compound AskName))"
    unfolding assms(2) by (simp_all add: always_yesno yesno_branch [OF assms(1)])
next
  assume neither: "\<not> isYes u \<and> \<not> isNo u"
  then have ny: "\<not> isYes (utterance h)" and nn: "\<not> isNo (utterance h)"
    by (simp_all add: assms(2))
  show "settle (In AskFullDay ValidateInput) c out =
          Inr (In AskFullDay InvalidInput, c,
               out @ [SPEAK (apology @ ''I heard '' @ u @ ''. Please answer with yes or no.'')])"
    and "settle4 (In AskFullDay ValidateInput) c out =
          Inr (In AskFullDay InvalidInput, c,
               out @ [SPEAK (apology @ ''I heard '' @ u @ ''. Please answer with yes or no.'')])"
    and "settle (In AskConfirm ValidateInput) c out =
          Inr (In AskConfirm InvalidInput, c,
               out @ [SPEAK (apology @ ''I heard '' @ u @ ''. Please answer with yes or no.'')])"
    and "settle4 (In AskConfirm ValidateInput) c out =
          Inr (In AskConfirm InvalidInput, c,
               out @ [SPEAK (apology @ ''I heard '' @ u @ ''. Please answer with yes or no.'')])"
    unfolding assms(2) by (simp_all add: invalid_yesno_settle [OF assms(1) ny nn])
qed (rule invalid_yesno_reprompt)+

theorem yes_no_classification_witness:
  "branch (always (In AskFullDay ValidateInput)) (havingHeard ''Sure'' initialContext)
     = Inr (Some (Atomic (In AskFullDay WholeDay)))
   \<and> branch (always4 (In AskConfirm ValidateInput)) (havingHeard ''Sure'' initialContext4)
     = Inr (Some (Atomic DoneMeeting))
   \<and> branch (always (In AskConfirm ValidateInput)) (havingHeard ''Nope'' initialContext)
     = Inr (Some (Compound AskName))
   \<and> branch (always4 (In AskFullDay ValidateInput)) (havingHeard ''Nope'' initialContext4)
     = Inr (Some (Compound AskTime))
   \<and> settle (In AskConfirm ValidateInput) (havingHeard ''maybe'' initialContext) [] =
       Inr (In AskConfirm InvalidInput, havingHeard ''maybe'' initialContext,
            [SPEAK ''sorry, but I heard maybe. Please answer with yes or no.''])
   \<and> settle4 (In AskFullDay ValidateInput) (havingHeard ''maybe'' initialContext4) [] =
       Inr (In AskFullDay InvalidInput, havingHeard ''maybe'' initialContext4,
            [SPEAK ''sorry, but I heard maybe. Please answer with yes or no.''])"
proof -
  have sure: "isYes ''Sure''"
    by (simp add: isYes_def yesPhrases_def toLowerCase_def isUpper_def)
  have nope: "isNo ''Nope''"
    by (simp add: isNo_def noPhrases_def toLowerCase_def isUpper_def)
  have maybe: "\<not> isYes ''maybe'' \<and> \<not> isNo ''maybe''"
    by (simp add: isYes_def isNo_def yesPhrases_def noPhrases_def toLowerCase_def isUpper_def)
  have heardCtx: "\<And>v c0. lastResult (havingHeard v c0) = Hyps [\<lparr>utterance = v, confidence = 1\<rparr>]"
    by (simp add: havingHeard_def)
  show ?thesis
    using yes_no_classification [OF heardCtx, of "''Sure''" "''Sure''" initialContext "[]"]
      yes_no_classification [OF heardCtx, of "''Sure''" "''Sure''" initialContext4 "[]"]
      yes_no_classification [OF heardCtx, of "''Nope''" "''Nope''" initialContext "[]"]
      yes_no_classification [OF heardCtx, of "''Nope''" "''Nope''" initialContext4 "[]"]
      yes_no_classification [OF heardCtx, of "''maybe''" "''maybe''" initialContext "[]"]
      yes_no_classification [OF heardCtx, of "''maybe''" "''maybe''" initialContext4 "[]"]
      sure nope maybe
    by (simp add: apology_def)
qed

section \<open>A turn without input, in dm.ts\<close>

lemma noinput_listen:
  "sl \<noteq> AskWhat \<Longrightarrow>
     step (In sl Listen) ASR_NOINPUT c = Inr (In sl Listen, c\<lparr>lastResult := Null\<rparr>, [])"
  by (cases sl; simp add: step_def dm_defs settle.simps [of "In sl Listen" for sl] slot_defs)

lemma noinput_complete:
  "sl \<noteq> AskWhat \<Longrightarrow> lastResult c = Null \<Longrightarrow>
     step (In sl b) LISTEN_COMPLETE c = Inr (In sl NoInput, c, [SPEAK didntHear])"
  by (cases sl; cases b;
      simp add: step_def dm_defs settle.simps [of "In sl NoInput" for sl] slot_defs)

lemma prompt_entry:
  "sl \<noteq> AskWhat \<Longrightarrow> \<exists>q. entry (In sl Prompt) c = Inr (c, [SPEAK q])"
  by (cases sl; simp add: dm_defs slot_defs)

lemma noinput_reprompt:
  "sl \<noteq> AskWhat \<Longrightarrow> entry (In sl Prompt) c = Inr (c, [SPEAK q]) \<Longrightarrow>
     step (In sl NoInput) SPEAK_COMPLETE c = Inr (In sl Prompt, c, [SPEAK q])"
  by (cases sl; simp add: step_def dm_defs settle.simps [of "In sl Prompt" for sl] slot_defs)

lemma entry_frame: "entry (In sl Prompt) (c\<lparr>lastResult := r\<rparr>) = Inr (c\<lparr>lastResult := r\<rparr>, out) \<longleftrightarrow> entry (In sl Prompt) c = Inr (c, out)"
  by (cases sl; auto simp add: dm_defs slot_defs)

text \<open>
  In dm.ts, for each of the five compound states \<open>sl\<close> (AskName, AskDay, AskFullDay,
  AskTime, AskConfirm) and every context \<open>c\<close>: \<open>ASR_NOINPUT\<close> in \<open>Listen\<close> nulls
  \<open>lastResult\<close> and nothing else; \<open>LISTEN_COMPLETE\<close> with \<open>lastResult\<close> null leads to
  the \<open>NoInput\<close> child of the same \<open>sl\<close>, from whatever child, and leaves the context
  as it is; \<open>SPEAK_COMPLETE\<close> then leads to the prompt of the same \<open>sl\<close>, which speaks
  its question \<open>q\<close>. The whole turn ends at that prompt with the person, day and time
  slots unchanged: only \<open>lastResult\<close> differs.
\<close>

lemma no_input_same_slot:
  assumes "sl \<noteq> AskWhat"
  shows "\<exists>q. entry (In sl Prompt) c = Inr (c, [SPEAK q])
     \<and> step (In sl Listen) ASR_NOINPUT c = Inr (In sl Listen, c\<lparr>lastResult := Null\<rparr>, [])
     \<and> (lastResult c = Null \<longrightarrow>
          step (In sl b) LISTEN_COMPLETE c = Inr (In sl NoInput, c, [SPEAK didntHear]))
     \<and> step (In sl NoInput) SPEAK_COMPLETE c = Inr (In sl Prompt, c, [SPEAK q])
     \<and> run step (In sl Listen) c [ASR_NOINPUT, LISTEN_COMPLETE, SPEAK_COMPLETE] =
          Inr (In sl Prompt, c\<lparr>lastResult := Null\<rparr>, [SPEAK didntHear, SPEAK q])"
proof -
  obtain q where q: "entry (In sl Prompt) c = Inr (c, [SPEAK q])"
    using prompt_entry [OF assms] by blast
  let ?c = "c\<lparr>lastResult := Null\<rparr>"
  have q': "entry (In sl Prompt) ?c = Inr (?c, [SPEAK q])"
    using q by (simp add: entry_frame)
  have 1: "step (In sl Listen) ASR_NOINPUT c = Inr (In sl Listen, ?c, [])"
    by (rule noinput_listen [OF assms])
  have 2: "step (In sl Listen) LISTEN_COMPLETE ?c = Inr (In sl NoInput, ?c, [SPEAK didntHear])"
    by (rule noinput_complete [OF assms]) simp
  have 3: "step (In sl NoInput) SPEAK_COMPLETE ?c = Inr (In sl Prompt, ?c, [SPEAK q])"
    by (rule noinput_reprompt [OF assms q'])
  have "run step (In sl Listen) c [ASR_NOINPUT, LISTEN_COMPLETE, SPEAK_COMPLETE] =
          Inr (In sl Prompt, ?c, [SPEAK didntHear, SPEAK q])"
    by (simp add: 1 2 3)
  then show ?thesis
    using q 1 noinput_complete [OF assms] noinput_reprompt [OF assms q] by blast
qed

lemma no_input_same_slot_example:
  "run step (In AskDay Listen)
     (havingHeard ''vlad'' (initialContext\<lparr>nameResult := Some ''Vladislav Maraev''\<rparr>))
     [ASR_NOINPUT, LISTEN_COMPLETE, SPEAK_COMPLETE] =
   Inr (In AskDay Prompt,
        initialContext\<lparr>nameResult := Some ''Vladislav Maraev''\<rparr>,
        [SPEAK ''Sorry, I didn't hear anything!'', SPEAK ''On which day is your meeting?''])"
proof -
  let ?c = "havingHeard ''vlad'' (initialContext\<lparr>nameResult := Some ''Vladislav Maraev''\<rparr>)"
  have slot: "AskDay \<noteq> AskWhat" by simp
  have q: "entry (In AskDay Prompt) ?c = Inr (?c, [SPEAK ''On which day is your meeting?''])"
    by (simp add: dm_defs slot_defs)
  have c: "?c\<lparr>lastResult := Null\<rparr> = initialContext\<lparr>nameResult := Some ''Vladislav Maraev''\<rparr>"
    by (simp add: havingHeard_def initialContext_def)
  show ?thesis
    using no_input_same_slot [OF slot, of ?c Listen] q c by (auto simp: didntHear_def)
qed

section \<open>A turn without input, in dm4.ts\<close>

lemma always4_not_NoInput:
  "t \<in> set (always4 s) \<Longrightarrow> target t \<noteq> Some (Atomic (In sl NoInput))
     \<and> (\<forall>sl'. target t = Some (Compound sl') \<longrightarrow> initial4 sl' \<noteq> In sl NoInput)"
  by (cases s; (simp add: always4_def; fail)?)
     (rename_tac sl' b, case_tac sl'; case_tac b;
      auto simp: dm4_defs slot4_defs split: slot.splits)

lemma settle4_NoInput:
  "settle4 s c out = Inr (In sl NoInput, r) \<Longrightarrow> s = In sl NoInput"
proof (induction s c out rule: settle4.induct)
  case (1 s c out)
  show ?case
  proof (cases "select (always4 s) c")
    case (Inl e)
    with "1.prems" show ?thesis by (simp add: settle4.simps [of s])
  next
    case (Inr ot)
    show ?thesis
    proof (cases ot)
      case None
      with Inr "1.prems" show ?thesis by (simp add: settle4.simps [of s])
    next
      case (Some t)
      with Inr have mem: "t \<in> set (always4 s)" by (auto dest: select_mem)
      show ?thesis
      proof (cases "fire entry4 initial4 t c")
        case (Inl e)
        with Inr Some "1.prems" show ?thesis by (simp add: settle4.simps [of s])
      next
        case fired: (Inr res)
        obtain os c1 out1 where res: "res = (os, c1, out1)" by (cases res)
        show ?thesis
        proof (cases os)
          case None
          with Inr Some fired res "1.prems" show ?thesis by (simp add: settle4.simps [of s])
        next
          case (Some s')
          with Inr \<open>ot = Some t\<close> fired res "1.prems"
          have "settle4 s' c1 (out @ out1) = Inr (In sl NoInput, r)"
            by (simp add: settle4.simps [of s])
          then have "s' = In sl NoInput"
            using "1.IH" Inr \<open>ot = Some t\<close> fired res Some by blast
          moreover have "fire entry4 initial4 t c = Inr (Some s', c1, out1)"
            using fired res Some by simp
          ultimately show ?thesis
            using fire_target [of entry4 initial4 t c s' "(c1, out1)"] always4_not_NoInput [OF mem, of sl]
            by auto
        qed
      qed
    qed
  qed
qed

text \<open>
  The \<open>LISTEN_COMPLETE\<close> array of AskName, AskDay, AskFullDay and AskTime, with the
  slot \<open>v\<close> that its guard reads; the guard throws when the slot is falsy and
  \<open>lastResult\<close> is null.
\<close>

lemma LISTEN_COMPLETE_array:
  assumes "sl = AskName \<and> v = nameResult \<or> sl = AskDay \<and> v = dayResult
       \<or> (sl = AskFullDay \<or> sl = AskTime) \<and> v = timeResult"
  shows "on4 (In sl b) LISTEN_COMPLETE =
           [gotoIf (filledOrHeard v) (In sl ValidateInput), goto (In sl NoInput)]"
  using assms by (cases b; auto simp: on4_def slot_defs slot_on4_def)

lemma guard_throws:
  "lastResult c = Null \<Longrightarrow> \<not> truthy (v c) \<Longrightarrow> filledOrHeard v c = Inl TypeError"
  by (simp add: filledOrHeard_def lastUtterance_def)

lemma NoInput_entry4:
  assumes "sl = AskName \<or> sl = AskDay \<or> sl = AskFullDay \<or> sl = AskTime"
  shows "entry4 (In sl NoInput) c = Inr (c, [SPEAK didntHear])"
    and "always4 (In sl NoInput) = []"
  using assms by (auto simp: dm4_defs slot4_defs)

lemma NoInput_reached:
  assumes own: "sl = AskName \<and> v = nameResult \<or> sl = AskDay \<and> v = dayResult
       \<or> (sl = AskFullDay \<or> sl = AskTime) \<and> v = timeResult"
    and "\<not> truthy (v c)" "lastUtterance c = Inr []"
  shows "step4 (In sl b) LISTEN_COMPLETE c = Inr (In sl NoInput, c, [SPEAK didntHear])"
proof -
  have sl: "sl = AskName \<or> sl = AskDay \<or> sl = AskFullDay \<or> sl = AskTime"
    using own by auto
  have g: "filledOrHeard v c = Inr False"
    using assms(2,3) by (simp add: filledOrHeard_def)
  show ?thesis
    by (simp add: step4_def LISTEN_COMPLETE_array [OF own] gotoIf_def goto_def g fire_def
         NoInput_entry4 [OF sl] settle4.simps [of "In sl NoInput"])
qed

lemma NoInput_only:
  assumes own: "sl = AskName \<and> v = nameResult \<or> sl = AskDay \<and> v = dayResult
       \<or> (sl = AskFullDay \<or> sl = AskTime) \<and> v = timeResult"
    and "step4 (In sl b) LISTEN_COMPLETE c = Inr (In sl NoInput, r)"
  shows "\<not> truthy (v c) \<and> lastUtterance c = Inr []"
proof (cases "filledOrHeard v c")
  case (Inl e)
  with assms(2) show ?thesis
    by (simp add: step4_def LISTEN_COMPLETE_array [OF own] gotoIf_def)
next
  case (Inr ok)
  show ?thesis
  proof (cases ok)
    case True
    with Inr assms(2) have False
      by (auto simp: step4_def LISTEN_COMPLETE_array [OF own] gotoIf_def fire_def Let_def
          split: sum.splits prod.splits dest!: settle4_NoInput)
    then show ?thesis ..
  next
    case False
    with Inr show ?thesis
      by (auto simp: filledOrHeard_def split: if_splits sum.splits)
  qed
qed

text \<open>
  C9. The claim: in every slot a turn without input leads to the \<open>NoInput\<close> child of
  that slot and back to its prompt. The code of dm4.ts at a session that opens with a
  \<open>CreateMeeting\<close> utterance without entities and then hears nothing at the name
  prompt: the machine is in \<open>AskName.Listen\<close>, \<open>ASR_NOINPUT\<close> nulls \<open>lastResult\<close>, and
  on \<open>LISTEN_COMPLETE\<close> choosing the transition throws a TypeError, so the turn ends in
  an error and not in \<open>NoInput\<close>. The same turn in dm.ts ends at the prompt of AskName.
\<close>

theorem no_input_turn_throws_in_dm4:
  "run step4 Prepare initialContext4
     [ASRTTS_READY, CLICK, SPEAK_COMPLETE, SPEAK_COMPLETE, classified ''CreateMeeting'',
      LISTEN_COMPLETE, SPEAK_COMPLETE, SPEAK_COMPLETE] =
     Inr (In AskName Listen, routed,
          [SPEAK ''Hi NLU!'', SPEAK ''What can I help you with?'', LISTEN_NLU,
           SPEAK ''All right, let's go!'', SPEAK ''Who are you meeting with?'', LISTEN])
   \<and> run step4 (In AskName Listen) routed [ASR_NOINPUT] =
       Inr (In AskName Listen, routed\<lparr>lastResult := Null\<rparr>, [])
   \<and> branch (on4 (In AskName Listen) LISTEN_COMPLETE) (routed\<lparr>lastResult := Null\<rparr>)
       = Inl TypeError
   \<and> run step4 (In AskName Listen) routed [ASR_NOINPUT, LISTEN_COMPLETE] = Inl TypeError
   \<and> run step (In AskName Listen) initialContext [ASR_NOINPUT, LISTEN_COMPLETE, SPEAK_COMPLETE] =
       Inr (In AskName Prompt, initialContext,
            [SPEAK ''Sorry, I didn't hear anything!'', SPEAK ''Who are you meeting with?''])"
  by code_simp

text \<open>
  C10, as the claim states it, fails in its last clause: \<open>NoInput\<close> is reachable in these
  slots by a guard evaluation that does not throw. With the person slot unset and the
  empty utterance as top hypothesis, the guard of AskName evaluates to false, the array
  falls through to \<open>NoInput\<close>, and the machine re-prompts.
\<close>

theorem NoInput_by_empty_utterance_counterexample:
  "filledOrHeard nameResult (havingHeard [] routed) = Inr False
   \<and> branch (on4 (In AskName Listen) LISTEN_COMPLETE) (havingHeard [] routed)
       = Inr (Some (Atomic (In AskName NoInput)))
   \<and> run step4 (In AskName Listen) routed [heard [], LISTEN_COMPLETE, SPEAK_COMPLETE] =
       Inr (In AskName Prompt, havingHeard [] routed,
            [SPEAK ''Sorry, I didn't hear anything!'', SPEAK ''Who are you meeting with?''])"
  by code_simp

text \<open>
  C10, amended. In dm4.ts, let \<open>sl\<close> be AskName, AskDay, AskFullDay or AskTime and \<open>v\<close>
  the slot its guard reads (the person, the day, the time and the time slot). The
  \<open>LISTEN_COMPLETE\<close> array of \<open>sl\<close> is the guarded transition to \<open>ValidateInput\<close>
  followed by the transition to \<open>NoInput\<close>, in every child \<open>b\<close>. In a turn in which
  \<open>v\<close> is still unset and recognition ended with no input (\<open>lastResult\<close> null), the
  guard itself throws the TypeError of reading \<open>lastResult![0]\<close>: no transition is
  selected, and the step is that error instead of the \<open>NoInput\<close> branch. The step ends
  in \<open>NoInput\<close> exactly when \<open>v\<close> is falsy and the top hypothesis is the empty
  utterance; so a turn without input never reaches \<open>NoInput\<close> in these slots.
\<close>

theorem LISTEN_COMPLETE_guard_reads_null:
  assumes "sl = AskName \<and> v = nameResult \<or> sl = AskDay \<and> v = dayResult
       \<or> (sl = AskFullDay \<or> sl = AskTime) \<and> v = timeResult"
  shows "on4 (In sl b) LISTEN_COMPLETE =
           [gotoIf (filledOrHeard v) (In sl ValidateInput), goto (In sl NoInput)]
     \<and> (lastResult c = Null \<and> \<not> truthy (v c) \<longrightarrow>
          filledOrHeard v c = Inl TypeError
          \<and> select (on4 (In sl b) LISTEN_COMPLETE) c = Inl TypeError
          \<and> step4 (In sl b) LISTEN_COMPLETE c = Inl TypeError)
     \<and> (step4 (In sl b) LISTEN_COMPLETE c = Inr (In sl NoInput, r)
          \<longleftrightarrow> \<not> truthy (v c) \<and> lastUtterance c = Inr [] \<and> r = (c, [SPEAK didntHear]))"
proof (intro conjI impI)
  show arr: "on4 (In sl b) LISTEN_COMPLETE =
           [gotoIf (filledOrHeard v) (In sl ValidateInput), goto (In sl NoInput)]"
    by (rule LISTEN_COMPLETE_array [OF assms])
  assume a: "lastResult c = Null \<and> \<not> truthy (v c)"
  then show g: "filledOrHeard v c = Inl TypeError" by (simp add: guard_throws)
  then show s: "select (on4 (In sl b) LISTEN_COMPLETE) c = Inl TypeError"
    by (simp add: arr gotoIf_def)
  then show "step4 (In sl b) LISTEN_COMPLETE c = Inl TypeError"
    by (simp add: step4_def)
next
  show "step4 (In sl b) LISTEN_COMPLETE c = Inr (In sl NoInput, r)
          \<longleftrightarrow> \<not> truthy (v c) \<and> lastUtterance c = Inr [] \<and> r = (c, [SPEAK didntHear])"
    using NoInput_only [OF assms, of b c r] NoInput_reached [OF assms, of c b] by auto
qed

theorem LISTEN_COMPLETE_guard_reads_null_witness:
  "lastResult initialContext4 = Null
   \<and> \<not> truthy (nameResult initialContext4)
   \<and> filledOrHeard nameResult initialContext4 = Inl TypeError
   \<and> select (on4 (In AskName Listen) LISTEN_COMPLETE) initialContext4 = Inl TypeError
   \<and> step4 (In AskName Listen) LISTEN_COMPLETE initialContext4 = Inl TypeError
   \<and> \<not> truthy (timeResult (havingHeard [] initialContext4))
   \<and> lastUtterance (havingHeard [] initialContext4) = Inr []
   \<and> step4 (In AskTime Listen) LISTEN_COMPLETE (havingHeard [] initialContext4) =
       Inr (In AskTime NoInput, havingHeard [] initialContext4,
            [SPEAK ''Sorry, I didn't hear anything!''])"
proof -
  have null: "lastResult initialContext4 = Null \<and> \<not> truthy (nameResult initialContext4)"
    by (simp add: initialContext4_def truthy_def)
  have empty: "\<not> truthy (timeResult (havingHeard [] initialContext4))
                 \<and> lastUtterance (havingHeard [] initialContext4) = Inr []"
    by (simp add: initialContext4_def truthy_def havingHeard_def lastUtterance_def)
  have name: "AskName = AskName \<and> nameResult = nameResult
       \<or> AskName = AskDay \<and> nameResult = dayResult
       \<or> (AskName = AskFullDay \<or> AskName = AskTime) \<and> nameResult = timeResult"
    by simp
  have time: "AskTime = AskName \<and> timeResult = nameResult
       \<or> AskTime = AskDay \<and> timeResult = dayResult
       \<or> (AskTime = AskFullDay \<or> AskTime = AskTime) \<and> timeResult = timeResult"
    by simp
  note n = LISTEN_COMPLETE_guard_reads_null [OF name, of Listen initialContext4]
  note t = LISTEN_COMPLETE_guard_reads_null [OF time, of Listen "havingHeard [] initialContext4"
      "(havingHeard [] initialContext4, [SPEAK didntHear])"]
  from n null have 1: "filledOrHeard nameResult initialContext4 = Inl TypeError
     \<and> select (on4 (In AskName Listen) LISTEN_COMPLETE) initialContext4 = Inl TypeError
     \<and> step4 (In AskName Listen) LISTEN_COMPLETE initialContext4 = Inl TypeError"
    by blast
  from t empty have 2: "step4 (In AskTime Listen) LISTEN_COMPLETE (havingHeard [] initialContext4) =
       Inr (In AskTime NoInput, havingHeard [] initialContext4, [SPEAK didntHear])"
    by blast
  show ?thesis
    using null empty 1 2 by (simp add: didntHear_def)
qed

section \<open>The lexicon resolver\<close>

text \<open>
  What holds of the resolver: a key of the table is in the grammar and gives the
  \<open>person\<close> of its entry; an utterance whose lower-cased form is no key gives no
  person, and is in the grammar exactly when it names a property of
  \<open>Object.prototype\<close>; both results depend on the lower-cased utterance only.
\<close>

lemma resolver_present:
  "grammar (toLowerCase u) = Some e \<Longrightarrow> isInGrammar u \<and> getPerson u = person e"
  by (auto simp: isInGrammar_def getPerson_def grammar_def dest: map_of_SomeD
      intro: rev_image_eqI)

lemma resolver_absent:
  "grammar (toLowerCase u) = None \<Longrightarrow>
     getPerson u = None \<and> (isInGrammar u \<longleftrightarrow> toLowerCase u \<in> set objectPrototype)"
  by (simp add: isInGrammar_def getPerson_def grammar_keys [symmetric] domIff)

lemma resolver_lower:
  "toLowerCase u = toLowerCase v \<Longrightarrow>
     isInGrammar u = isInGrammar v \<and> getPerson u = getPerson v"
  by (simp add: isInGrammar_def getPerson_def)

text \<open>
  C6. The claim: an utterance whose lower-cased form is absent from the grammar table
  is not in the grammar. The code at the utterance \<open>constructor\<close>: it is no key of the
  table, and \<open>isInGrammar\<close> returns true, because the operator \<open>in\<close> finds the property
  \<open>constructor\<close> that \<open>grammar\<close> inherits from \<open>Object.prototype\<close>. AskTime of dm.ts
  therefore takes \<open>constructor\<close> for a bookable time.
\<close>

theorem isInGrammar_inherited_property:
  "grammar (toLowerCase ''constructor'') = None
   \<and> isInGrammar ''constructor''
   \<and> run step (In AskTime Listen) initialContext [heard ''constructor'', LISTEN_COMPLETE] =
       Inr (In AskTime ValidInput,
            (havingHeard ''constructor'' initialContext)\<lparr>timeResult := Some ''constructor''\<rparr>,
            [SPEAK ''ok, constructor''])"
  by (simp add: grammar_def grammarTable_def isInGrammar_def objectPrototype_def
       toLowerCase_def isUpper_def step_def heard_def havingHeard_def dm_defs slot_defs
       settle.simps [of "In AskTime Listen"] settle.simps [of "In AskTime ValidateInput"]
       settle.simps [of "In AskTime ValidInput"] Let_def orElse_def str_def)

section \<open>The intent router of dm4.ts\<close>

lemma AskWhat_recognised:
  "step4 (In AskWhat Listen) (RECOGNISED v (Some nv)) c =
     Inr (In AskWhat Listen,
          (foldl applyEntity c (case entities nv of None \<Rightarrow> [] | Some es \<Rightarrow> es))
             \<lparr>lastResult := Nlu nv, nluIntent := Some (topIntent nv),
              nluEntities := entities nv\<rparr>, [])"
  by (simp add: step4_def dm4_defs slot4_defs recognisedNLU_def
       settle4.simps [of "In AskWhat Listen"])

lemma AskWhat_listen_complete:
  "lastResult c \<noteq> Null \<Longrightarrow>
     step4 (In AskWhat b) LISTEN_COMPLETE c = settle4 (In AskWhat ValidateInput) c []"
  by (cases b; simp add: step4_def dm4_defs slot4_defs)

lemma None_intent_settle:
  "nluIntent c = Some ''None'' \<Longrightarrow>
     settle4 (In AskWhat ValidateInput) c out =
       Inr (In AskWhat InvalidInput, c,
            out @ [SPEAK ''Sorry, I didn't understand that. You can ask to make an appointment or ask about a person.''])"
  by (simp add: dm4_defs slot4_defs settle4.simps [of "In AskWhat ValidateInput"]
       settle4.simps [of "In AskWhat InvalidInput"])

lemma other_intent_settle:
  "nluIntent c \<noteq> Some ''None'' \<Longrightarrow>
     settle4 (In AskWhat ValidateInput) c out =
       Inr (In AskWhat ValidInput, c, out @ [SPEAK ''All right, let's go!''])"
  by (simp add: dm4_defs slot4_defs settle4.simps [of "In AskWhat ValidateInput"]
       settle4.simps [of "In AskWhat ValidInput"])

lemma AskWhat_reprompt:
  "step4 (In AskWhat InvalidInput) SPEAK_COMPLETE c =
     Inr (In AskWhat Prompt, c, [SPEAK ''What can I help you with?''])"
  by (simp add: step4_def dm4_defs slot4_defs settle4.simps [of "In AskWhat Prompt"])

text \<open>
  C7, as the claim states it, fails: the intent \<open>Cancel\<close> is neither \<open>CreateMeeting\<close> nor
  \<open>WhoIs\<close>, and the machine does not take the invalid-input path. \<open>ValidateInput\<close> tests
  \<open>nluIntent !== "None"\<close>, so the machine enters \<open>ValidInput\<close> and says "All right, let's
  go!"; there \<open>SPEAK_COMPLETE\<close> finds no transition whose guard holds, and the machine
  stays in \<open>AskWhat.ValidInput\<close>.
\<close>

theorem unrouted_intent_counterexample:
  "run step4 (In AskWhat Listen) initialContext4
     [classified ''Cancel'', LISTEN_COMPLETE, SPEAK_COMPLETE] =
   Inr (In AskWhat ValidInput,
        initialContext4\<lparr>lastResult := Nlu \<lparr>topIntent = ''Cancel'', entities = Some []\<rparr>,
                         nluIntent := Some ''Cancel'', nluEntities := Some []\<rparr>,
        [SPEAK ''All right, let's go!''])"
  by (simp add: step4_def classified_def dm4_defs slot4_defs recognisedNLU_def
       initialContext4_def settle4.simps [of "In AskWhat Listen"]
       settle4.simps [of "In AskWhat ValidateInput"] settle4.simps [of "In AskWhat ValidInput"])

text \<open>
  C7, amended. When the opening utterance is classified as the intent \<open>None\<close>, the
  machine takes the invalid-input path: after \<open>LISTEN_COMPLETE\<close> it is in
  \<open>AskWhat.InvalidInput\<close> and has spoken the apology, and \<open>SPEAK_COMPLETE\<close> brings it
  back to the prompt "What can I help you with?". Here \<open>c'\<close> is the context after the
  \<open>RECOGNISED\<close> event.
\<close>

theorem None_intent_reprompts:
  assumes "topIntent nv = ''None''"
    and "c' = (foldl applyEntity c (case entities nv of None \<Rightarrow> [] | Some es \<Rightarrow> es))
                 \<lparr>lastResult := Nlu nv, nluIntent := Some (topIntent nv),
                  nluEntities := entities nv\<rparr>"
  shows "run step4 (In AskWhat Listen) c [RECOGNISED v (Some nv), LISTEN_COMPLETE] =
           Inr (In AskWhat InvalidInput, c',
                [SPEAK ''Sorry, I didn't understand that. You can ask to make an appointment or ask about a person.''])
         \<and> step4 (In AskWhat InvalidInput) SPEAK_COMPLETE c' =
           Inr (In AskWhat Prompt, c', [SPEAK ''What can I help you with?''])"
  using assms
  by (simp add: AskWhat_recognised AskWhat_listen_complete None_intent_settle AskWhat_reprompt)

theorem None_intent_reprompts_witness:
  "run step4 (In AskWhat Listen) initialContext4
     [classified ''None'', LISTEN_COMPLETE, SPEAK_COMPLETE] =
   Inr (In AskWhat Prompt,
        initialContext4\<lparr>lastResult := Nlu \<lparr>topIntent = ''None'', entities = Some []\<rparr>,
                         nluIntent := Some ''None'', nluEntities := Some []\<rparr>,
        [SPEAK ''Sorry, I didn't understand that. You can ask to make an appointment or ask about a person.'',
         SPEAK ''What can I help you with?''])"
proof -
  let ?nv = "\<lparr>topIntent = ''None'', entities = Some []\<rparr>"
  let ?c = "initialContext4\<lparr>lastResult := Nlu ?nv, nluIntent := Some ''None'',
                             nluEntities := Some []\<rparr>"
  have intent: "topIntent ?nv = ''None''" by simp
  have c: "?c = (foldl applyEntity initialContext4
                   (case entities ?nv of None \<Rightarrow> [] | Some es \<Rightarrow> es))
                 \<lparr>lastResult := Nlu ?nv, nluIntent := Some (topIntent ?nv),
                  nluEntities := entities ?nv\<rparr>"
    by simp
  have both: "run step4 (In AskWhat Listen) initialContext4
                [RECOGNISED [] (Some ?nv), LISTEN_COMPLETE] =
           Inr (In AskWhat InvalidInput, ?c,
                [SPEAK ''Sorry, I didn't understand that. You can ask to make an appointment or ask about a person.''])
         \<and> step4 (In AskWhat InvalidInput) SPEAK_COMPLETE ?c =
           Inr (In AskWhat Prompt, ?c, [SPEAK ''What can I help you with?''])"
    by (rule None_intent_reprompts [OF intent c])
  from both [THEN conjunct1] both [THEN conjunct2]
  have "run step4 (In AskWhat Listen) initialContext4
                ([RECOGNISED [] (Some ?nv), LISTEN_COMPLETE] @ [SPEAK_COMPLETE]) =
           Inr (In AskWhat Prompt, ?c,
                [SPEAK ''Sorry, I didn't understand that. You can ask to make an appointment or ask about a person.'']
                  @ [SPEAK ''What can I help you with?''])"
    by (rule run_then)
  then show ?thesis
    by (simp add: classified_def del: run.simps)
qed

section \<open>A name pre-filled by the router\<close>

lemma applyEntity_name:
  "nameResult (applyEntity c e) = (if isPersonName e then Some (text_of e) else nameResult c)"
  by (simp add: applyEntity_def isPersonName_def)

lemma foldl_applyEntity_name:
  "nameResult (foldl applyEntity c es) =
     (if filter isPersonName es = [] then nameResult c
      else Some (text_of (last (filter isPersonName es))))"
  by (induction es rule: rev_induct) (simp_all add: applyEntity_name)

lemma CheckForName_branch:
  "branch (always4 (In AskName CheckFor)) c =
     Inr (Some (Atomic (if nameResult c \<noteq> Some [] then In AskName ValidateInput
                        else In AskName Prompt)))"
  by (simp add: dm4_defs slot4_defs)

lemma routed_CreateMeeting:
  "nluIntent c = Some ''CreateMeeting'' \<Longrightarrow>
     branch (on4 (In AskWhat ValidInput) SPEAK_COMPLETE) c = Inr (Some (Compound AskName))"
  by (simp add: dm4_defs slot4_defs)

lemma known_person: "getPerson n = Some p \<Longrightarrow> p \<noteq> [] \<and> p \<noteq> ''Unknown''"
  by (auto dest: getPerson_values)

lemma prefilled_known_name:
  assumes "nluIntent c = Some ''CreateMeeting''" "nameResult c = Some n" "n \<noteq> []"
    "getPerson n = Some p"
  shows "step4 (In AskWhat ValidInput) SPEAK_COMPLETE c =
           Inr (In AskName ValidInput, c\<lparr>nameResult := Some p\<rparr>,
                [SPEAK (''ok, you are meeting with '' @ p)])"
  using assms known_person [OF assms(4)]
  by (simp add: step4_def dm4_defs slot4_defs validateName_def truthy_def orElse_def str_def
       settle4.simps [of "In AskName CheckFor"] settle4.simps [of "In AskName ValidateInput"]
       settle4.simps [of "In AskName ValidInput"])

text \<open>
  Validating a pre-filled name that the lexicon does not know reads
  \<open>lastResult![0]\<close>, and \<open>lastResult\<close> still holds the NLU result of the router,
  which has no property \<open>0\<close>: the \<open>assign\<close> of \<open>ValidateInput\<close> throws.
\<close>

lemma prefilled_unknown_name:
  assumes "nluIntent c = Some ''CreateMeeting''" "nameResult c = Some n" "n \<noteq> []"
    "getPerson n = None" "lastResult c = Nlu nv"
  shows "step4 (In AskWhat ValidInput) SPEAK_COMPLETE c = Inl TypeError"
  using assms
  by (simp add: step4_def dm4_defs slot4_defs validateName_def truthy_def
       settle4.simps [of "In AskName CheckFor"] settle4.simps [of "In AskName ValidateInput"])

text \<open>
  C8. In dm4.ts, let the opening utterance be classified as \<open>CreateMeeting\<close> with
  entities \<open>es\<close>, at least one of them a person name, and let \<open>name\<close>, the text of the
  last person-name entity, be non-empty. Then the \<open>RECOGNISED\<close> action of the routing
  step stores \<open>name\<close> in the person slot; \<open>LISTEN_COMPLETE\<close> leads to \<open>ValidInput\<close>, whose
  \<open>SPEAK_COMPLETE\<close> transition enters AskName; AskName is entered at \<open>CheckForName\<close>,
  which speaks nothing and whose eventless transition goes to \<open>ValidateInput\<close>, not to
  the prompt; and when the lexicon knows \<open>name\<close> as the person \<open>p\<close>, the step ends in
  \<open>AskName.ValidInput\<close> with \<open>p\<close> in the person slot, having sent only the
  confirmation of the name: no prompt and no \<open>LISTEN\<close>.
\<close>

theorem prefilled_name_skips_prompt:
  assumes "topIntent nv = ''CreateMeeting''"
    and "entities nv = Some es"
    and "filter isPersonName es \<noteq> []"
    and "name = text_of (last (filter isPersonName es))"
    and "name \<noteq> []"
    and "c' = (foldl applyEntity c es)
                 \<lparr>lastResult := Nlu nv, nluIntent := Some ''CreateMeeting'',
                  nluEntities := Some es\<rparr>"
  shows "step4 (In AskWhat Listen) (RECOGNISED v (Some nv)) c = Inr (In AskWhat Listen, c', [])
     \<and> nameResult c' = Some name
     \<and> step4 (In AskWhat Listen) LISTEN_COMPLETE c' =
         Inr (In AskWhat ValidInput, c', [SPEAK ''All right, let's go!''])
     \<and> branch (on4 (In AskWhat ValidInput) SPEAK_COMPLETE) c' = Inr (Some (Compound AskName))
     \<and> initial4 AskName = In AskName CheckFor
     \<and> entry4 (In AskName CheckFor) c' = Inr (c', [])
     \<and> branch (always4 (In AskName CheckFor)) c'
         = Inr (Some (Atomic (In AskName ValidateInput)))
     \<and> (\<forall>p. getPerson name = Some p \<longrightarrow>
           step4 (In AskWhat ValidInput) SPEAK_COMPLETE c' =
             Inr (In AskName ValidInput, c'\<lparr>nameResult := Some p\<rparr>,
                  [SPEAK (''ok, you are meeting with '' @ p)]))"
proof -
  have name: "nameResult c' = Some name"
    using assms(3,4) by (simp add: assms(6) foldl_applyEntity_name)
  have intent: "nluIntent c' = Some ''CreateMeeting''" and last: "lastResult c' \<noteq> Null"
    by (simp_all add: assms(6))
  have 1: "step4 (In AskWhat Listen) (RECOGNISED v (Some nv)) c = Inr (In AskWhat Listen, c', [])"
    by (simp add: AskWhat_recognised assms)
  have 2: "step4 (In AskWhat Listen) LISTEN_COMPLETE c' =
         Inr (In AskWhat ValidInput, c', [SPEAK ''All right, let's go!''])"
    using intent by (simp add: AskWhat_listen_complete [OF last] other_intent_settle)
  have 3: "branch (always4 (In AskName CheckFor)) c'
             = Inr (Some (Atomic (In AskName ValidateInput)))"
    using name assms(5) by (simp add: CheckForName_branch)
  have 4: "entry4 (In AskName CheckFor) c' = Inr (c', [])"
    by (simp add: dm4_defs slot4_defs)
  show ?thesis
    using 1 2 3 4 name routed_CreateMeeting [OF intent]
      prefilled_known_name [OF intent name assms(5)]
    by (simp add: initial4_def)
qed

theorem prefilled_name_skips_prompt_witness:
  "run step4 (In AskWhat Listen) initialContext4
     [RECOGNISED [] (Some \<lparr>topIntent = ''CreateMeeting'',
                            entities = Some [\<lparr>category = ''personName'', text_of = ''Vlad''\<rparr>]\<rparr>),
      LISTEN_COMPLETE, SPEAK_COMPLETE] =
   Inr (In AskName ValidInput,
        initialContext4
          \<lparr>lastResult := Nlu \<lparr>topIntent = ''CreateMeeting'',
                                entities = Some [\<lparr>category = ''personName'', text_of = ''Vlad''\<rparr>]\<rparr>,
           nameResult := Some ''Vladislav Maraev'', nluIntent := Some ''CreateMeeting'',
           nluEntities := Some [\<lparr>category = ''personName'', text_of = ''Vlad''\<rparr>]\<rparr>,
        [SPEAK ''All right, let's go!'', SPEAK ''ok, you are meeting with Vladislav Maraev''])"
proof -
  let ?es = "[\<lparr>category = ''personName'', text_of = ''Vlad''\<rparr>]"
  let ?nv = "\<lparr>topIntent = ''CreateMeeting'', entities = Some ?es\<rparr>"
  let ?c = "(foldl applyEntity initialContext4 ?es)
              \<lparr>lastResult := Nlu ?nv, nluIntent := Some ''CreateMeeting'',
               nluEntities := Some ?es\<rparr>"
  have person: "filter isPersonName ?es \<noteq> []"
    and name: "''Vlad'' = text_of (last (filter isPersonName ?es))"
    by (simp_all add: isPersonName_def)
  have intent: "topIntent ?nv = ''CreateMeeting''" and ents: "entities ?nv = Some ?es"
    and nonempty: "''Vlad'' \<noteq> []"
    by simp_all
  have known: "getPerson ''Vlad'' = Some ''Vladislav Maraev''"
    by (simp add: getPerson_def grammar_def grammarTable_def noEntry_def toLowerCase_def
         isUpper_def)
  have c: "?c = initialContext4
                  \<lparr>lastResult := Nlu ?nv, nameResult := Some ''Vlad'',
                   nluIntent := Some ''CreateMeeting'', nluEntities := Some ?es\<rparr>"
    by (simp add: applyEntity_def initialContext4_def)
  have all: "step4 (In AskWhat Listen) (RECOGNISED [] (Some ?nv)) initialContext4
               = Inr (In AskWhat Listen, ?c, [])
     \<and> step4 (In AskWhat Listen) LISTEN_COMPLETE ?c =
         Inr (In AskWhat ValidInput, ?c, [SPEAK ''All right, let's go!''])
     \<and> step4 (In AskWhat ValidInput) SPEAK_COMPLETE ?c =
             Inr (In AskName ValidInput, ?c\<lparr>nameResult := Some ''Vladislav Maraev''\<rparr>,
                  [SPEAK (''ok, you are meeting with '' @ ''Vladislav Maraev'')])"
    using prefilled_name_skips_prompt [OF intent ents person name nonempty refl,
        where c = initialContext4 and v = "[]"] known
    by blast
  from all have r1: "run step4 (In AskWhat Listen) initialContext4
                       [RECOGNISED [] (Some ?nv)] = Inr (In AskWhat Listen, ?c, [])"
    by (simp only: run_single)
  note r2 = run_then [OF r1 all [THEN conjunct2, THEN conjunct1]]
  note r3 = run_then [OF r2 all [THEN conjunct2, THEN conjunct2]]
  show ?thesis
    using r3 unfolding c by (simp del: run.simps)
qed

section \<open>Declining at AskConfirm\<close>

text \<open>
  C1, as the claim states it, fails. The dm.ts session with the answers \<open>vlad\<close>,
  \<open>monday\<close> and \<open>yes\<close> reaches \<open>AskConfirm.Listen\<close> with all three slots filled
  (the context \<open>booked\<close>); the answer \<open>no\<close> then leads to the prompt of AskName, and the
  person, day and time slots still hold their values, while a fresh session enters
  AskName with the person slot null.
\<close>

theorem reject_keeps_slots_counterexample:
  "run step Prepare initialContext
     ([ASRTTS_READY, CLICK, SPEAK_COMPLETE] @ turn ''vlad'' @ [SPEAK_COMPLETE]
        @ turn ''monday'' @ [SPEAK_COMPLETE] @ turn ''yes'' @ [SPEAK_COMPLETE, SPEAK_COMPLETE])
     = Inr (In AskConfirm Listen, booked,
        [SPEAK ''Hi! Let's create an appointment.'', SPEAK ''Who are you meeting with?'',
         LISTEN, SPEAK ''ok, you are meeting with Vladislav Maraev'',
         SPEAK ''On which day is your meeting?'', LISTEN,
         SPEAK ''ok, your meeting is on monday'',
         SPEAK ''Will it take the whole day?'', LISTEN, SPEAK ''ok, whole day'',
         SPEAK ''Do you want me to create an appointment with Vladislav Maraev on monday for the whole day?'',
         LISTEN])
   \<and> run step (In AskConfirm Listen) booked [heard ''no'', LISTEN_COMPLETE]
     = Inr (In AskName Prompt, havingHeard ''no'' booked, [SPEAK ''Who are you meeting with?''])
   \<and> nameResult (havingHeard ''no'' booked) = Some ''Vladislav Maraev''
   \<and> dayResult (havingHeard ''no'' booked) = Some ''monday''
   \<and> timeResult (havingHeard ''no'' booked) = Some ''whole day''
   \<and> nameResult initialContext = None"
  by code_simp

lemma reject_settle:
  assumes "lastResult c = Hyps (h # hs)" "isNo (utterance h)"
  shows "settle (In AskConfirm ValidateInput) c out =
           Inr (In AskName Prompt, c, out @ [SPEAK ''Who are you meeting with?''])"
  using assms
  by (simp add: dm_defs slot_defs isNo_lower settle.simps [of "In AskConfirm ValidateInput"]
       settle.simps [of "In AskName Prompt"])

lemma AskConfirm_listen_complete:
  "lastResult c \<noteq> Null \<Longrightarrow>
     step (In AskConfirm b) LISTEN_COMPLETE c = settle (In AskConfirm ValidateInput) c []"
  by (cases b; simp add: step_def dm_defs slot_defs)

text \<open>
  C1, amended. In dm.ts, in AskConfirm, when the recognized utterance is a no-phrase,
  \<open>LISTEN_COMPLETE\<close> brings the machine to the prompt of AskName and leaves the context
  as it is: the person, day and time slots keep their values and are not cleared. In
  dm4.ts the same answer takes the transition whose target is AskName.
\<close>

theorem reject_keeps_context:
  assumes "lastResult c = Hyps (h # hs)" and "isNo (utterance h)"
  shows "step (In AskConfirm b) LISTEN_COMPLETE c =
           Inr (In AskName Prompt, c, [SPEAK ''Who are you meeting with?''])
     \<and> settle (In AskConfirm ValidateInput) c out =
           Inr (In AskName Prompt, c, out @ [SPEAK ''Who are you meeting with?''])
     \<and> branch (always4 (In AskConfirm ValidateInput)) c = Inr (Some (Compound AskName))"
proof -
  have "lastResult c \<noteq> Null" using assms(1) by simp
  then show ?thesis
    using reject_settle [OF assms] yesno_branch(2) [OF assms(1), of DoneMeeting] assms(2)
    by (simp add: AskConfirm_listen_complete always_yesno)
qed

theorem reject_keeps_context_witness:
  "isNo ''No''
   \<and> step (In AskConfirm Listen) LISTEN_COMPLETE (havingHeard ''No'' booked) =
       Inr (In AskName Prompt, havingHeard ''No'' booked, [SPEAK ''Who are you meeting with?''])
   \<and> nameResult (havingHeard ''No'' booked) = Some ''Vladislav Maraev''
   \<and> dayResult (havingHeard ''No'' booked) = Some ''monday''
   \<and> timeResult (havingHeard ''No'' booked) = Some ''whole day''"
proof -
  have no: "isNo (utterance \<lparr>utterance = ''No'', confidence = 1\<rparr>)"
    by (simp add: isNo_def noPhrases_def toLowerCase_def isUpper_def)
  have ctx: "lastResult (havingHeard ''No'' booked) = Hyps [\<lparr>utterance = ''No'', confidence = 1\<rparr>]"
    by (simp add: havingHeard_def)
  show ?thesis
    using reject_keeps_context [OF ctx no, of Listen "[]"] no
    by (simp add: havingHeard_def booked_def)
qed

text \<open>
  In dm4.ts the same answer re-enters AskName at \<open>CheckForName\<close>, which finds the
  person slot filled and validates it against the last utterance, the \<open>no\<close>: the
  machine ends in \<open>AskName.InvalidInput\<close> with the person slot \<open>Unknown\<close> and the day
  and time slots as they were.
\<close>

lemma reject_in_dm4:
  "run step4 (In AskConfirm Listen) (booked\<lparr>nluIntent := Some ''CreateMeeting''\<rparr>)
     [heard ''no'', LISTEN_COMPLETE] =
   Inr (In AskName InvalidInput,
        (havingHeard ''no'' booked)\<lparr>nameResult := Some ''Unknown'',
                                    nluIntent := Some ''CreateMeeting''\<rparr>,
        [SPEAK ''sorry, but there does not seem to be a person with the name  Unknown in our system.''])"
  by code_simp

section \<open>Accepting at AskConfirm\<close>

lemma resetContext_initial: "resetContext c = initialContext4"
  by (cases c) (simp add: resetContext_def initialContext4_def)

lemma accept_settle4:
  assumes "lastResult c = Hyps (h # hs)" "isYes (utterance h)"
  shows "settle4 (In AskConfirm ValidateInput) c out =
           Inr (DoneMeeting, resetContext c,
                out @ [SPEAK ''Ok, your meeting has been set up! Goodbye!''])"
  using assms yes_not_no [OF assms(2)]
  by (simp add: dm4_defs slot4_defs isNo_lower isYes_lower
       settle4.simps [of "In AskConfirm ValidateInput"] settle4.simps [of DoneMeeting])

lemma accept_settle:
  assumes "lastResult c = Hyps (h # hs)" "isYes (utterance h)"
  shows "settle (In AskConfirm ValidateInput) c out =
           Inr (Done, c, out @ [SPEAK ''Your appointment has been created!''])"
  using assms yes_not_no [OF assms(2)]
  by (simp add: dm_defs slot_defs isNo_lower isYes_lower
       settle.simps [of "In AskConfirm ValidateInput"] settle.simps [of Done])

lemma done_click:
  "step4 DoneMeeting CLICK c = Inr (Greeting, c, [SPEAK ''Hi NLU!''])"
  "step4 Done CLICK c = Inr (Greeting, c, [SPEAK ''Hi NLU!''])"
  by (simp_all add: step4_def dm4_defs settle4.simps [of Greeting])

lemma done_entry:
  "entry4 Done c =
     Inr (initialContext4, [SPEAK ''Thank you for using Jenny's dialogue system lab! Goodbye!''])"
  by (simp add: entry4_def speak_def resetContext_initial)

text \<open>
  C2, as the claim states it, fails for dm.ts, whose \<open>Done\<close> has no \<open>assign\<close>: from
  \<open>AskConfirm.Listen\<close> with the context \<open>booked\<close> (the answer \<open>yes\<close> recognised),
  \<open>LISTEN_COMPLETE\<close> enters \<open>Done\<close> and \<open>CLICK\<close> re-enters \<open>Greeting\<close>, and the context is
  still \<open>booked\<close>: the person slot holds the name and \<open>lastResult\<close> the last hypothesis.
\<close>

theorem Done_keeps_context_counterexample:
  "run step (In AskConfirm Listen) booked [LISTEN_COMPLETE, CLICK]
     = Inr (Greeting, booked,
            [SPEAK ''Your appointment has been created!'',
             SPEAK ''Hi! Let's create an appointment.''])
   \<and> nameResult booked = Some ''Vladislav Maraev''
   \<and> lastResult booked = Hyps [\<lparr>utterance = ''yes'', confidence = 1\<rparr>]"
  by code_simp

text \<open>
  C2, amended. In dm4.ts, an affirmative answer at AskConfirm enters \<open>DoneMeeting\<close>,
  whose entry resets the context: the person, day and time slots and the intent are the
  empty string, \<open>lastResult\<close> and the entities are null, which is the context the
  machine starts with; the same holds on entry to \<open>Done\<close>. Only then can \<open>CLICK\<close>
  re-enter \<open>Greeting\<close>. In dm.ts the affirmative answer enters \<open>Done\<close> and the context
  stays as it is.
\<close>

theorem DoneMeeting_resets_context:
  assumes "lastResult c = Hyps (h # hs)" and "isYes (utterance h)"
  shows "settle4 (In AskConfirm ValidateInput) c out =
           Inr (DoneMeeting, initialContext4,
                out @ [SPEAK ''Ok, your meeting has been set up! Goodbye!''])
     \<and> initialContext4 =
           \<lparr>lastResult = Null, nameResult = Some [], dayResult = Some [],
            timeResult = Some [], nluIntent = Some [], nluEntities = None\<rparr>
     \<and> entry4 Done c =
           Inr (initialContext4,
                [SPEAK ''Thank you for using Jenny's dialogue system lab! Goodbye!''])
     \<and> step4 DoneMeeting CLICK initialContext4 =
           Inr (Greeting, initialContext4, [SPEAK ''Hi NLU!''])
     \<and> settle (In AskConfirm ValidateInput) c out =
           Inr (Done, c, out @ [SPEAK ''Your appointment has been created!''])"
  using accept_settle4 [OF assms] accept_settle [OF assms]
  by (simp add: resetContext_initial done_entry done_click initialContext4_def)

theorem DoneMeeting_resets_context_witness:
  "isYes ''yes''
   \<and> settle4 (In AskConfirm ValidateInput) booked [] =
       Inr (DoneMeeting, initialContext4, [SPEAK ''Ok, your meeting has been set up! Goodbye!''])
   \<and> settle (In AskConfirm ValidateInput) booked [] =
       Inr (Done, booked, [SPEAK ''Your appointment has been created!''])"
proof -
  have yes: "isYes (utterance \<lparr>utterance = ''yes'', confidence = 1\<rparr>)"
    by (simp add: isYes_def yesPhrases_def toLowerCase_def isUpper_def)
  have ctx: "lastResult booked = Hyps [\<lparr>utterance = ''yes'', confidence = 1\<rparr>]"
    by (simp add: booked_def)
  show ?thesis
    using DoneMeeting_resets_context [OF ctx yes, of "[]"] yes by simp
qed

section \<open>The happy path of dm.ts\<close>

text \<open>
  C3, as the claim states it, fails in its last step: the dm.ts session with the answers
  \<open>vlad\<close>, \<open>monday\<close>, \<open>yes\<close> and \<open>yes\<close> ends in \<open>Done\<close>, and the context is not reset:
  it is \<open>booked\<close>, with the three slots filled, and not the initial context.
\<close>

theorem happy_path_context_counterexample:
  "finalState (run step Prepare initialContext
     ([ASRTTS_READY, CLICK, SPEAK_COMPLETE] @ turn ''vlad'' @ [SPEAK_COMPLETE]
        @ turn ''monday'' @ [SPEAK_COMPLETE] @ turn ''yes'' @ [SPEAK_COMPLETE]
        @ turn ''yes'')) = Some Done
   \<and> finalContext (run step Prepare initialContext
     ([ASRTTS_READY, CLICK, SPEAK_COMPLETE] @ turn ''vlad'' @ [SPEAK_COMPLETE]
        @ turn ''monday'' @ [SPEAK_COMPLETE] @ turn ''yes'' @ [SPEAK_COMPLETE]
        @ turn ''yes'')) = Some booked
   \<and> booked \<noteq> initialContext"
  by code_simp

text \<open>
  C3, amended. In dm.ts: at the prompt of AskName, the utterance \<open>vlad\<close> sets the person
  slot to \<open>Vladislav Maraev\<close> (context \<open>named\<close>), and \<open>SPEAK_COMPLETE\<close> advances to the
  prompt of AskDay; the utterance \<open>xyz\<close> at AskName has no entry in the lexicon: the
  machine apologises in \<open>InvalidInput\<close>, leaves the person slot null, and
  \<open>SPEAK_COMPLETE\<close> prompts for the name again; \<open>monday\<close> at AskDay stores the day
  (context \<open>dated\<close>) and advances to the full-day question; \<open>yes\<close> there sets the time
  slot to \<open>whole day\<close> (context \<open>booked\<close>) and advances to the prompt of AskConfirm;
  \<open>yes\<close> at AskConfirm enters \<open>Done\<close>, which announces the appointment and leaves the
  context as it is.
\<close>

theorem happy_path_grammar_variant:
  "run step (In AskName Prompt) initialContext (turn ''vlad'') =
     Inr (In AskName ValidInput, named,
          [LISTEN, SPEAK ''ok, you are meeting with Vladislav Maraev''])
   \<and> nameResult named = Some ''Vladislav Maraev''
   \<and> step (In AskName ValidInput) SPEAK_COMPLETE named =
       Inr (In AskDay Prompt, named, [SPEAK ''On which day is your meeting?''])
   \<and> run step (In AskName Prompt) initialContext (turn ''xyz'') =
       Inr (In AskName InvalidInput, havingHeard ''xyz'' initialContext,
            [LISTEN,
             SPEAK ''sorry, but there does not seem to be a person with the name  xyz in our system.''])
   \<and> nameResult (havingHeard ''xyz'' initialContext) = None
   \<and> step (In AskName InvalidInput) SPEAK_COMPLETE (havingHeard ''xyz'' initialContext) =
       Inr (In AskName Prompt, havingHeard ''xyz'' initialContext,
            [SPEAK ''Who are you meeting with?''])
   \<and> run step (In AskDay Prompt) named (turn ''monday'') =
       Inr (In AskDay ValidInput, dated, [LISTEN, SPEAK ''ok, your meeting is on monday''])
   \<and> step (In AskDay ValidInput) SPEAK_COMPLETE dated =
       Inr (In AskFullDay Prompt, dated, [SPEAK ''Will it take the whole day?''])
   \<and> run step (In AskFullDay Prompt) dated (turn ''yes'') =
       Inr (In AskFullDay WholeDay, booked, [LISTEN, SPEAK ''ok, whole day''])
   \<and> timeResult booked = Some ''whole day''
   \<and> step (In AskFullDay WholeDay) SPEAK_COMPLETE booked =
       Inr (In AskConfirm Prompt, booked,
            [SPEAK ''Do you want me to create an appointment with Vladislav Maraev on monday for the whole day?''])
   \<and> run step (In AskConfirm Prompt) booked (turn ''yes'') =
       Inr (Done, booked, [LISTEN, SPEAK ''Your appointment has been created!''])"
  by code_simp

end
